theory Spec2Isabelle
  imports Complex_Main "HOL-Library.Word"
begin

section \<open>JavaScript values\<close>

text \<open>
  A JavaScript string is a sequence of UTF-16 code units; the transport delivers
  bytes. \<open>str\<close> writes an ASCII literal as a JavaScript string, \<open>bytes\<close> as the
  bytes of its UTF-8 encoding.
\<close>

type_synonym jschar = "16 word"
type_synonym jsstring = "jschar list"
type_synonym byte = "8 word"

definition str :: "string \<Rightarrow> jsstring" where
  "str s = map of_char s"

definition bytes :: "string \<Rightarrow> byte list" where
  "bytes s = map of_char s"

text \<open>The line feed, the one-character string of \<^verbatim>\<open>"\n"\<close>.\<close>

definition NL :: jschar where
  "NL = 0x0A"

text \<open>
  What \<^verbatim>\<open>JSON.parse\<close> and \<^verbatim>\<open>res.json()\<close> return. A number is the rational
  value of the double (\<^verbatim>\<open>-0\<close> is \<open>0\<close>: both are falsy). An object is the list of its
  own properties, its keys distinct. \<^verbatim>\<open>undefined\<close> is \<open>None\<close> of \<open>json option\<close>.
\<close>

datatype json =
    JNull
  | JBool bool
  | JNumber rat
  | JString jsstring
  | JArray "json list"
  | JObject "(jsstring \<times> json) list"

text \<open>
  The exceptions of \<^verbatim>\<open>chat.ts\<close>, one constructor for each place that throws.
  \<open>Error v\<close> is what \<^verbatim>\<open>throw new Error(v)\<close> throws at lines 96 and 178, \<open>v\<close> the value
  of \<^verbatim>\<open>error.message\<close>: an exception whose message is \<open>v\<close> converted to a string,
  which is \<open>v\<close> itself when \<open>v\<close> is a string. \<open>Chat_stopped_due_to v\<close> is what line 100
  throws, \<open>v\<close> the finish reason. (Where \<open>v\<close> has no string conversion, see
  \<open>ToString_throws\<close> below, the statement throws the TypeError of the conversion; the
  constructor stands for what the statement throws.)
\<close>

datatype error =
    SyntaxError
  | TypeError
  | NetworkError
  | Error "json option"
  | Invalid_response
  | Chat_stopped_due_to "json option"
  | Request_failed_with nat jsstring jsstring
  | Request_failed

text \<open>
  Reading a property. \<open>own_property\<close> is the lookup itself, for the keys this file reads
  (\<^verbatim>\<open>error\<close>, \<^verbatim>\<open>message\<close>, \<^verbatim>\<open>choices\<close>, \<^verbatim>\<open>finish_reason\<close>, \<^verbatim>\<open>usage\<close>,
  \<^verbatim>\<open>total_tokens\<close>): none is an index, \<^verbatim>\<open>length\<close> or a member of a prototype, so
  only an object has them. \<open>get\<close> is \<^verbatim>\<open>v.k\<close>, which throws on \<^verbatim>\<open>undefined\<close> and
  \<^verbatim>\<open>null\<close>; \<open>opt_get\<close> is \<^verbatim>\<open>v?.k\<close>, which gives \<^verbatim>\<open>undefined\<close> there.
\<close>

fun own_property :: "json \<Rightarrow> jsstring \<Rightarrow> json option" where
  "own_property (JObject kvs) k = map_of kvs k"
| "own_property _ k = None"

fun get :: "json option \<Rightarrow> jsstring \<Rightarrow> error + json option" where
  "get None k = Inl TypeError"
| "get (Some JNull) k = Inl TypeError"
| "get (Some v) k = Inr (own_property v k)"

fun opt_get :: "json option \<Rightarrow> jsstring \<Rightarrow> json option" where
  "opt_get None k = None"
| "opt_get (Some JNull) k = None"
| "opt_get (Some v) k = own_property v k"

text \<open>\<^verbatim>\<open>v[0]\<close> and \<^verbatim>\<open>v?.[0]\<close>: the first element of an array, the first character of
  a string, the property \<^verbatim>\<open>"0"\<close> of an object.\<close>

fun index0 :: "json \<Rightarrow> json option" where
  "index0 (JArray []) = None"
| "index0 (JArray (x # xs)) = Some x"
| "index0 (JString []) = None"
| "index0 (JString (c # cs)) = Some (JString [c])"
| "index0 (JObject kvs) = map_of kvs (str ''0'')"
| "index0 _ = None"

fun get0 :: "json option \<Rightarrow> error + json option" where
  "get0 None = Inl TypeError"
| "get0 (Some JNull) = Inl TypeError"
| "get0 (Some v) = Inr (index0 v)"

text \<open>The condition of an \<^verbatim>\<open>if\<close>: \<^verbatim>\<open>undefined\<close>, \<^verbatim>\<open>null\<close>, \<^verbatim>\<open>false\<close>, \<^verbatim>\<open>0\<close> and
  \<^verbatim>\<open>""\<close> are falsy, every other value is truthy.\<close>

fun truthy :: "json option \<Rightarrow> bool" where
  "truthy None = False"
| "truthy (Some JNull) = False"
| "truthy (Some (JBool b)) = b"
| "truthy (Some (JNumber n)) = (n \<noteq> 0)"
| "truthy (Some (JString s)) = (s \<noteq> [])"
| "truthy (Some (JArray xs)) = True"
| "truthy (Some (JObject kvs)) = True"

fun Array_isArray :: "json option \<Rightarrow> bool" where
  "Array_isArray (Some (JArray xs)) = True"
| "Array_isArray _ = False"

section \<open>The string methods of the reassembler\<close>

text \<open>\<^verbatim>\<open>s.lastIndexOf(c)\<close> for a one-character \<open>c\<close>: the last index of \<open>c\<close> in \<open>s\<close>,
  or \<open>-1\<close>.\<close>

fun String_lastIndexOf :: "jsstring \<Rightarrow> jschar \<Rightarrow> int" where
  "String_lastIndexOf [] c = -1"
| "String_lastIndexOf (x # xs) c =
     (let r = String_lastIndexOf xs c
      in if 0 \<le> r then r + 1 else if x = c then 0 else -1)"

text \<open>\<^verbatim>\<open>s.slice(start, end)\<close> and \<^verbatim>\<open>s.slice(start)\<close>: a negative index counts from the
  end, and both are clamped to the string.\<close>

definition String_slice :: "jsstring \<Rightarrow> int \<Rightarrow> int \<Rightarrow> jsstring" where
  "String_slice s start end' =
     (let len = int (length s);
          from = (if start < 0 then max (len + start) 0 else min start len);
          to = (if end' < 0 then max (len + end') 0 else min end' len)
      in take (nat (to - from)) (drop (nat from) s))"

definition String_slice_from :: "jsstring \<Rightarrow> int \<Rightarrow> jsstring" where
  "String_slice_from s start = String_slice s start (int (length s))"

text \<open>\<^verbatim>\<open>s.split(c)\<close> for a one-character \<open>c\<close>: the pieces between the occurrences of
  \<open>c\<close>, one more than there are occurrences (\<^verbatim>\<open>"".split("\n")\<close> is \<^verbatim>\<open>[""]\<close>).\<close>

fun String_split :: "jsstring \<Rightarrow> jschar \<Rightarrow> jsstring list" where
  "String_split [] c = [[]]"
| "String_split (x # xs) c =
     (let r = String_split xs c
      in if x = c then [] # r else (x # hd r) # tl r)"

text \<open>
  \<^verbatim>\<open>[...wholeLine.matchAll(/^data: (\{.*\})$/g)][0]?.[1]\<close>. The pattern has no \<^verbatim>\<open>m\<close>
  flag, so \<^verbatim>\<open>^\<close> and \<^verbatim>\<open>$\<close> are the two ends of the line, and no \<^verbatim>\<open>s\<close> flag, so
  \<^verbatim>\<open>.\<close> is any code unit but a line terminator. The line matches when it is
  \<^verbatim>\<open>data: {\<close>, then code units that are no line terminators, then \<^verbatim>\<open>}\<close>; the
  group is the line without \<^verbatim>\<open>data: \<close>.
\<close>

definition LineTerminator :: "jschar \<Rightarrow> bool" where
  "LineTerminator c = (c = 0x0A \<or> c = 0x0D \<or> c = 0x2028 \<or> c = 0x2029)"

definition data_match :: "jsstring \<Rightarrow> jsstring option" where
  "data_match wholeLine =
     (if take 7 wholeLine = str ''data: {'' \<and> 8 \<le> length wholeLine \<and> last wholeLine = 0x7D
         \<and> list_all (\<lambda>c. \<not> LineTerminator c) (drop 7 (butlast wholeLine))
      then Some (drop 6 wholeLine) else None)"

text \<open>\<^verbatim>\<open>.filter(Boolean)\<close> on strings, some of them \<^verbatim>\<open>undefined\<close>: the empty string
  and \<^verbatim>\<open>undefined\<close> go.\<close>

fun Boolean_string :: "jsstring option \<Rightarrow> bool" where
  "Boolean_string None = False"
| "Boolean_string (Some s) = (s \<noteq> [])"

section \<open>The reassembler of getChatStream\<close>

text \<open>Lines 166 to 174: the window, the carried line, the whole lines and their
  matches.\<close>

definition carry :: "jsstring \<Rightarrow> jsstring" where
  "carry currentWindow =
     String_slice_from currentWindow (String_lastIndexOf currentWindow NL + 1)"

definition wholeLines :: "jsstring \<Rightarrow> jsstring list" where
  "wholeLines currentWindow =
     filter (\<lambda>l. Boolean_string (Some l))
       (String_split (String_slice currentWindow 0 (String_lastIndexOf currentWindow NL + 1)) NL)"

definition matches :: "jsstring list \<Rightarrow> jsstring list" where
  "matches ls = map the (filter Boolean_string (map data_match ls))"

text \<open>
  What a consumer of the generator sees: the items yielded, in order, and the
  exception that ended it, if one did. \<open>unfinishedLine\<close> is the variable of line 155
  when the generator ends.
\<close>

record run =
  yielded :: "json list"
  thrown :: "error option"
  unfinishedLine :: jsstring

text \<open>Lines 176 to 181, the loop over the matches. \<open>JSON_parse\<close> is the platform's
  \<^verbatim>\<open>JSON.parse\<close>: it throws a SyntaxError or returns a value.\<close>

fun for_matches :: "(jsstring \<Rightarrow> error + json) \<Rightarrow> jsstring list \<Rightarrow> json list \<times> error option" where
  "for_matches JSON_parse [] = ([], None)"
| "for_matches JSON_parse (match # rest) =
     (case JSON_parse match of
        Inl e \<Rightarrow> ([], Some e)
      | Inr item \<Rightarrow>
          if truthy (opt_get (opt_get (Some item) (str ''error'')) (str ''message''))
          then ([], Some (Error (opt_get (opt_get (Some item) (str ''error'')) (str ''message''))))
          else if \<not> Array_isArray (opt_get (Some item) (str ''choices''))
          then ([], Some Invalid_response)
          else (case for_matches JSON_parse rest of (ys, r) \<Rightarrow> (item # ys, r)))"

text \<open>Lines 155 to 182, the read loop: the body is a list of chunks, then done.
  \<open>decode\<close> is \<^verbatim>\<open>decoder.decode\<close>.\<close>

fun read_loop ::
  "(jsstring \<Rightarrow> error + json) \<Rightarrow> (byte list \<Rightarrow> jsstring) \<Rightarrow> jsstring \<Rightarrow> byte list list \<Rightarrow> run" where
  "read_loop JSON_parse decode unfinished [] =
     \<lparr>yielded = [], thrown = None, unfinishedLine = unfinished\<rparr>"
| "read_loop JSON_parse decode unfinished (value # rest) =
     (let chunk = decode value;
          currentWindow = unfinished @ chunk
      in case for_matches JSON_parse (matches (wholeLines currentWindow)) of
           (ys, Some e) \<Rightarrow> \<lparr>yielded = ys, thrown = Some e, unfinishedLine = carry currentWindow\<rparr>
         | (ys, None) \<Rightarrow>
             (let r = read_loop JSON_parse decode (carry currentWindow) rest
              in r\<lparr>yielded := ys @ yielded r\<rparr>))"

text \<open>
  The state of the reassembler alone, as the loop body of lines 163 to 172 moves
  it when no exception ends the loop: the text handed on as whole lines
  (\<open>whole\<close> is the \<^verbatim>\<open>currentWindow.slice(0, currentWindow.lastIndexOf("\n") + 1)\<close>
  of line 170), the whole lines themselves, and the line carried over.
\<close>

definition whole :: "jsstring \<Rightarrow> jsstring" where
  "whole currentWindow = String_slice currentWindow 0 (String_lastIndexOf currentWindow NL + 1)"

fun processed :: "(byte list \<Rightarrow> jsstring) \<Rightarrow> jsstring \<Rightarrow> byte list list \<Rightarrow> jsstring" where
  "processed decode unfinished [] = []"
| "processed decode unfinished (value # rest) =
     whole (unfinished @ decode value) @ processed decode (carry (unfinished @ decode value)) rest"

fun lines_seen :: "(byte list \<Rightarrow> jsstring) \<Rightarrow> jsstring \<Rightarrow> byte list list \<Rightarrow> jsstring list" where
  "lines_seen decode unfinished [] = []"
| "lines_seen decode unfinished (value # rest) =
     wholeLines (unfinished @ decode value) @ lines_seen decode (carry (unfinished @ decode value)) rest"

fun carried :: "(byte list \<Rightarrow> jsstring) \<Rightarrow> jsstring \<Rightarrow> byte list list \<Rightarrow> jsstring" where
  "carried decode unfinished [] = unfinished"
| "carried decode unfinished (value # rest) = carried decode (carry (unfinished @ decode value)) rest"

section \<open>The decoder\<close>

text \<open>
  \<^verbatim>\<open>new TextDecoder("utf-8")\<close> and \<^verbatim>\<open>decoder.decode(value)\<close>, called without
  \<^verbatim>\<open>{stream: true}\<close>: every call decodes its chunk from the initial state and flushes
  at the end of the chunk. The decoder is the UTF-8 decoder of the Encoding
  Standard: a byte that cannot continue or start a sequence, and a sequence cut by
  the end of the chunk, give U+FFFD. A byte order mark at the start of the chunk is
  dropped. The code points are then written as UTF-16.
\<close>

record utf8_state =
  code_point :: nat
  bytes_seen :: nat
  bytes_needed :: nat
  lower_boundary :: byte
  upper_boundary :: byte

definition utf8_initial :: utf8_state where
  "utf8_initial =
     \<lparr>code_point = 0, bytes_seen = 0, bytes_needed = 0, lower_boundary = 0x80, upper_boundary = 0xBF\<rparr>"

definition utf8_lead :: "byte \<Rightarrow> nat list \<times> utf8_state" where
  "utf8_lead b =
     (if b \<le> 0x7F then ([unat b], utf8_initial)
      else if 0xC2 \<le> b \<and> b \<le> 0xDF
      then ([], utf8_initial\<lparr>bytes_needed := 1, code_point := unat b mod 32\<rparr>)
      else if 0xE0 \<le> b \<and> b \<le> 0xEF
      then ([], utf8_initial\<lparr>lower_boundary := (if b = 0xE0 then 0xA0 else 0x80),
                              upper_boundary := (if b = 0xED then 0x9F else 0xBF),
                              bytes_needed := 2, code_point := unat b mod 16\<rparr>)
      else if 0xF0 \<le> b \<and> b \<le> 0xF4
      then ([], utf8_initial\<lparr>lower_boundary := (if b = 0xF0 then 0x90 else 0x80),
                              upper_boundary := (if b = 0xF4 then 0x8F else 0xBF),
                              bytes_needed := 3, code_point := unat b mod 8\<rparr>)
      else ([0xFFFD], utf8_initial))"

fun utf8_decode :: "utf8_state \<Rightarrow> byte list \<Rightarrow> nat list" where
  "utf8_decode st [] = (if bytes_needed st \<noteq> 0 then [0xFFFD] else [])"
| "utf8_decode st (b # bs) =
     (if bytes_needed st = 0
      then (case utf8_lead b of (out, st') \<Rightarrow> out @ utf8_decode st' bs)
      else if b < lower_boundary st \<or> upper_boundary st < b
      then 0xFFFD # (case utf8_lead b of (out, st') \<Rightarrow> out @ utf8_decode st' bs)
      else if bytes_seen st + 1 \<noteq> bytes_needed st
      then utf8_decode (st\<lparr>lower_boundary := 0x80, upper_boundary := 0xBF,
                             code_point := code_point st * 64 + unat b mod 64,
                             bytes_seen := bytes_seen st + 1\<rparr>) bs
      else (code_point st * 64 + unat b mod 64) # utf8_decode utf8_initial bs)"

definition utf16 :: "nat \<Rightarrow> jsstring" where
  "utf16 cp =
     (if cp < 0x10000 then [of_nat cp]
      else [of_nat (0xD800 + (cp - 0x10000) div 0x400), of_nat (0xDC00 + (cp - 0x10000) mod 0x400)])"

definition TextDecoder_decode :: "byte list \<Rightarrow> jsstring" where
  "TextDecoder_decode value =
     (let cps = utf8_decode utf8_initial value
      in concat (map utf16 (if cps \<noteq> [] \<and> hd cps = 0xFEFF then tl cps else cps)))"

section \<open>The request\<close>

text \<open>
  The interfaces of lines 1 to 35. A \<^verbatim>\<open>number\<close> of the caller is a finite number,
  \<^verbatim>\<open>NaN\<close> or an infinity. The response format \<^verbatim>\<open>{type: "text"}\<close> is \<open>plain_text\<close>.
\<close>

datatype jsnumber = Finite rat | NaN | Infinity | Minus_Infinity

datatype role = assistant | user | system

datatype detail = Auto | Low | High

datatype ChatMessagePart =
    ChatMessageTextPart jsstring
  | ChatMessageImagePart jsstring "detail option"

record ChatMessage =
  role :: role
  content :: "ChatMessagePart list + jsstring"

datatype ChatCompletionResponseFormat = json_object | plain_text

text \<open>
  \<^verbatim>\<open>Partial<OpenAIChatPayload>\<close>, the type of \<^verbatim>\<open>config\<close>: every field of the payload,
  each one optional. A member of such an object is absent, present with the value
  \<^verbatim>\<open>undefined\<close>, or present with a value of the field's type.
\<close>

datatype 'a member = Absent | Undefined | Value 'a

record Partial_OpenAIChatPayload =
  messages :: "ChatMessage list member"
  temperature :: "jsnumber member"
  top_p :: "jsnumber member"
  frequency_penalty :: "jsnumber member"
  presence_penalty :: "jsnumber member"
  max_tokens :: "jsnumber member"
  stop :: "(jsstring + jsstring list) member"
  response_format :: "ChatCompletionResponseFormat member"
  seed :: "jsnumber member"

text \<open>
  The object \<^verbatim>\<open>payload\<close> of lines 74 to 83 and 122 to 131. The seven members the
  literal names are always present, with a value or with \<^verbatim>\<open>undefined\<close> (\<open>None\<close>);
  \<^verbatim>\<open>response_format\<close> and \<^verbatim>\<open>seed\<close> are what \<^verbatim>\<open>config\<close> has.
\<close>

record Payload =
  messages :: "ChatMessage list option"
  temperature :: "jsnumber option"
  top_p :: "jsnumber option"
  frequency_penalty :: "jsnumber option"
  presence_penalty :: "jsnumber option"
  max_tokens :: "jsnumber option"
  stop :: "(jsstring + jsstring list) option"
  response_format :: "ChatCompletionResponseFormat member"
  seed :: "jsnumber member"

text \<open>One member of an object spread \<^verbatim>\<open>{k: d, ...config}\<close>: \<open>d\<close> when \<^verbatim>\<open>config\<close>
  has no member \<^verbatim>\<open>k\<close>, the member of \<^verbatim>\<open>config\<close> when it has one, also when its
  value is \<^verbatim>\<open>undefined\<close>.\<close>

fun spread :: "'a \<Rightarrow> 'a member \<Rightarrow> 'a option" where
  "spread d Absent = Some d"
| "spread d Undefined = None"
| "spread d (Value v) = Some v"

text \<open>Lines 74 to 83, and again lines 122 to 131: the payload. \<^verbatim>\<open>config\<close> is
  optional; spreading \<^verbatim>\<open>undefined\<close> adds nothing.\<close>

definition payload :: "ChatMessage list \<Rightarrow> Partial_OpenAIChatPayload option \<Rightarrow> Payload" where
  "payload msgs config =
     (case config of
        None \<Rightarrow>
          \<lparr>Payload.messages = Some msgs,
           Payload.temperature = Some (Finite (7 / 10)),
           Payload.top_p = Some (Finite 1),
           Payload.frequency_penalty = Some (Finite 0),
           Payload.presence_penalty = Some (Finite 0),
           Payload.max_tokens = Some (Finite 60),
           Payload.stop = Some (Inl []),
           Payload.response_format = Absent,
           Payload.seed = Absent\<rparr>
      | Some c \<Rightarrow>
          \<lparr>Payload.messages = spread msgs (Partial_OpenAIChatPayload.messages c),
           Payload.temperature = spread (Finite (7 / 10)) (Partial_OpenAIChatPayload.temperature c),
           Payload.top_p = spread (Finite 1) (Partial_OpenAIChatPayload.top_p c),
           Payload.frequency_penalty = spread (Finite 0) (Partial_OpenAIChatPayload.frequency_penalty c),
           Payload.presence_penalty = spread (Finite 0) (Partial_OpenAIChatPayload.presence_penalty c),
           Payload.max_tokens = spread (Finite 60) (Partial_OpenAIChatPayload.max_tokens c),
           Payload.stop = spread (Inl []) (Partial_OpenAIChatPayload.stop c),
           Payload.response_format = Partial_OpenAIChatPayload.response_format c,
           Payload.seed = Partial_OpenAIChatPayload.seed c\<rparr>)"

text \<open>
  \<^verbatim>\<open>JSON.stringify\<close> of the payload, and of \<^verbatim>\<open>{...payload, stream: true}\<close> in
  getChatStream: the members of the JSON object that the body is, \<open>None\<close> for a
  member the body does not have. A member whose value is \<^verbatim>\<open>undefined\<close> is left out;
  a number is written as it is when it is finite and as \<^verbatim>\<open>null\<close> when it is \<^verbatim>\<open>NaN\<close>
  or an infinity. The order of the members in the text is not modelled.
\<close>

fun json_of_number :: "jsnumber \<Rightarrow> json" where
  "json_of_number (Finite r) = JNumber r"
| "json_of_number NaN = JNull"
| "json_of_number Infinity = JNull"
| "json_of_number Minus_Infinity = JNull"

fun defined :: "'a member \<Rightarrow> 'a option" where
  "defined (Value v) = Some v"
| "defined Undefined = None"
| "defined Absent = None"

record Body =
  messages :: "ChatMessage list option"
  temperature :: "json option"
  top_p :: "json option"
  frequency_penalty :: "json option"
  presence_penalty :: "json option"
  max_tokens :: "json option"
  stop :: "(jsstring + jsstring list) option"
  response_format :: "ChatCompletionResponseFormat option"
  seed :: "json option"
  stream :: "bool option"

definition JSON_stringify :: "Payload \<Rightarrow> bool option \<Rightarrow> Body" where
  "JSON_stringify p s =
     \<lparr>messages = Payload.messages p,
      temperature = map_option json_of_number (Payload.temperature p),
      top_p = map_option json_of_number (Payload.top_p p),
      frequency_penalty = map_option json_of_number (Payload.frequency_penalty p),
      presence_penalty = map_option json_of_number (Payload.presence_penalty p),
      max_tokens = map_option json_of_number (Payload.max_tokens p),
      stop = Payload.stop p,
      response_format = defined (Payload.response_format p),
      seed = map_option json_of_number (defined (Payload.seed p)),
      stream = s\<rparr>"

text \<open>
  What \<^verbatim>\<open>fetch\<close> is given: the endpoint, the method, the two headers and the body,
  which is \<^verbatim>\<open>JSON.stringify(payload)\<close> in getChatResponse (\<open>s\<close> is \<open>None\<close>) and
  \<^verbatim>\<open>JSON.stringify({...payload, stream: true})\<close> in getChatStream (\<open>s\<close> is
  \<open>Some True\<close>).
\<close>

record Request =
  url :: jsstring
  http_method :: jsstring
  headers :: "(jsstring \<times> jsstring) list"
  body :: Body

definition request :: "jsstring \<Rightarrow> jsstring \<Rightarrow> Payload \<Rightarrow> bool option \<Rightarrow> Request" where
  "request endpoint apiKey p s =
     \<lparr>url = endpoint, http_method = str ''post'',
      headers = [(str ''Content-Type'', str ''application/json''), (str ''api-key'', apiKey)],
      body = JSON_stringify p s\<rparr>"

section \<open>getChatResponse\<close>

text \<open>
  Whether converting a value to a string throws, as a template literal and
  \<^verbatim>\<open>new Error\<close> convert it. A primitive value and \<^verbatim>\<open>undefined\<close> always convert.
  An object converts through its \<^verbatim>\<open>toString\<close>: the one of \<^verbatim>\<open>Object.prototype\<close>
  gives a string, but an own member \<^verbatim>\<open>toString\<close>, which in a parsed value is never a
  function, hides it, \<^verbatim>\<open>valueOf\<close> then gives back the object, and the conversion
  throws a TypeError. An array converts by joining the conversions of its elements.
\<close>

fun ToString_throws :: "json \<Rightarrow> bool" where
  "ToString_throws (JObject kvs) = (map_of kvs (str ''toString'') \<noteq> None)"
| "ToString_throws (JArray xs) = list_ex ToString_throws xs"
| "ToString_throws _ = False"

fun conversion_throws :: "json option \<Rightarrow> bool" where
  "conversion_throws None = False"
| "conversion_throws (Some v) = ToString_throws v"

text \<open>
  Lines 95 to 110, on the value \<^verbatim>\<open>res.json()\<close> gave. The \<^verbatim>\<open>console.log\<close> of
  line 102 prints, and to build what it prints it reads
  \<^verbatim>\<open>result.usage.total_tokens\<close>, which throws when \<^verbatim>\<open>usage\<close> is missing or
  \<^verbatim>\<open>null\<close>, and converts it to a string in the template literal of line 103, which
  throws when the value has no string conversion. The \<^verbatim>\<open>catch\<close> of line 111 prints
  and throws the exception again.
\<close>

definition finish_reason :: "json \<Rightarrow> error + json option" where
  "finish_reason result =
     (case get (Some result) (str ''choices'') of
        Inl e \<Rightarrow> Inl e
      | Inr choices \<Rightarrow>
          (case get0 choices of
             Inl e \<Rightarrow> Inl e
           | Inr topChoice \<Rightarrow> Inr (opt_get topChoice (str ''finish_reason''))))"

definition checked :: "json \<Rightarrow> error + json" where
  "checked result =
     (case get (Some result) (str ''error'') of
        Inl e \<Rightarrow> Inl e
      | Inr err \<Rightarrow>
          if truthy err
          then (case get err (str ''message'') of Inl e \<Rightarrow> Inl e | Inr m \<Rightarrow> Inl (Error m))
          else
            (case finish_reason result of
               Inl e \<Rightarrow> Inl e
             | Inr reason \<Rightarrow>
                 if reason \<noteq> Some (JString (str ''stop''))
                 then Inl (Chat_stopped_due_to reason)
                 else
                   (case get (Some result) (str ''usage'') of
                      Inl e \<Rightarrow> Inl e
                    | Inr usage \<Rightarrow>
                        (case get usage (str ''total_tokens'') of
                           Inl e \<Rightarrow> Inl e
                         | Inr total_tokens \<Rightarrow>
                             if conversion_throws total_tokens then Inl TypeError
                             else Inr result))))"

text \<open>Lines 73 to 119. \<open>fetch_json\<close> is \<^verbatim>\<open>fetch(...).then((res) => res.json())\<close>: it
  rejects with an exception or resolves to a value.\<close>

definition getChatResponse ::
  "(Request \<Rightarrow> error + json) \<Rightarrow> jsstring \<Rightarrow> jsstring \<Rightarrow> ChatMessage list
     \<Rightarrow> Partial_OpenAIChatPayload option \<Rightarrow> error + json" where
  "getChatResponse fetch_json endpoint apiKey msgs config =
     (case fetch_json (request endpoint apiKey (payload msgs config) None) of
        Inl e \<Rightarrow> Inl e
      | Inr result \<Rightarrow> checked result)"

section \<open>getChatStream\<close>

text \<open>The response of \<^verbatim>\<open>fetch\<close>, as far as lines 146 to 152 read it. The body is
  the list of the chunks \<^verbatim>\<open>reader.read()\<close> gives before it is done.\<close>

record Response =
  ok :: bool
  status :: nat
  statusText :: jsstring
  response_text :: jsstring
  response_body :: "byte list list option"

text \<open>Lines 121 to 183. Nothing is yielded before the loop, so an exception
  before it leaves an empty run.\<close>

definition getChatStream ::
  "(Request \<Rightarrow> error + Response) \<Rightarrow> (jsstring \<Rightarrow> error + json) \<Rightarrow> jsstring \<Rightarrow> jsstring
     \<Rightarrow> ChatMessage list \<Rightarrow> Partial_OpenAIChatPayload option \<Rightarrow> run" where
  "getChatStream fetch JSON_parse endpoint apiKey msgs config =
     (case fetch (request endpoint apiKey (payload msgs config) (Some True)) of
        Inl e \<Rightarrow> \<lparr>yielded = [], thrown = Some e, unfinishedLine = []\<rparr>
      | Inr response \<Rightarrow>
          if \<not> ok response
          then \<lparr>yielded = [],
                thrown = Some (Request_failed_with (status response) (statusText response)
                                 (response_text response)),
                unfinishedLine = []\<rparr>
          else
            (case response_body response of
               None \<Rightarrow> \<lparr>yielded = [], thrown = Some Request_failed, unfinishedLine = []\<rparr>
             | Some chunks \<Rightarrow> read_loop JSON_parse TextDecoder_decode [] chunks))"

section \<open>The texts of the examples\<close>

text \<open>
  The values of \<^verbatim>\<open>JSON.parse\<close> at the JSON texts of the examples below, which
  parse no other text. \<open>e_acute\<close> is the letter U+00E9, two bytes in UTF-8, and
  \<open>replaced\<close> what the decoder makes of these two bytes when each comes alone.
\<close>

definition e_acute :: jsstring where
  "e_acute = [0xE9]"

definition replaced :: jsstring where
  "replaced = [0xFFFD, 0xFFFD]"

definition content_item :: "jsstring \<Rightarrow> json" where
  "content_item s =
     JObject [(str ''choices'',
       JArray [JObject [(str ''delta'', JObject [(str ''content'', JString s)])]])]"

definition choices_item :: "json \<Rightarrow> json" where
  "choices_item v = JObject [(str ''choices'', v)]"

definition boom_item :: json where
  "boom_item = JObject [(str ''error'', JObject [(str ''message'', JString (str ''boom''))])]"

definition empty_message_item :: json where
  "empty_message_item =
     JObject [(str ''error'', JObject [(str ''message'', JString [])]), (str ''choices'', JArray [])]"

definition quota_item :: json where
  "quota_item =
     JObject [(str ''error'', JObject [(str ''message'', JString (str ''quota''))]),
              (str ''choices'', JNull)]"

definition JSON_parse_examples :: "jsstring \<Rightarrow> error + json" where
  \<open>JSON_parse_examples s =
     (if s = str ''{"choices":[]}'' then Inr (choices_item (JArray []))
      else if s = str ''{"choices":null}'' then Inr (choices_item JNull)
      else if s = str ''{"error":{"message":"boom"}}'' then Inr boom_item
      else if s = str ''{"error":{"message":""},"choices":[]}'' then Inr empty_message_item
      else if s = str ''{"error":{"message":"quota"},"choices":null}'' then Inr quota_item
      else if s = str ''{"choices":[{"delta":{"content":"'' @ e_acute @ str ''"}}]}''
      then Inr (content_item e_acute)
      else if s = str ''{"choices":[{"delta":{"content":"'' @ replaced @ str ''"}}]}''
      then Inr (content_item replaced)
      else Inl SyntaxError)\<close>

text \<open>The responses and the requests of the examples: a \<^verbatim>\<open>fetch\<close> that resolves
  to a given response, a response with one choice and its usage, the same
  without usage, the same with a \<^verbatim>\<open>total_tokens\<close> that has no string conversion,
  a \<^verbatim>\<open>config\<close> with no member, and two lists of messages.\<close>

definition respond :: "json \<Rightarrow> Request \<Rightarrow> error + json" where
  "respond result req = Inr result"

definition choice :: "jsstring \<Rightarrow> json" where
  "choice reason =
     JObject [(str ''finish_reason'', JString reason), (str ''index'', JNumber 0),
       (str ''message'',
          JObject [(str ''role'', JString (str ''assistant'')), (str ''content'', JString (str ''hi''))])]"

definition usage_item :: json where
  "usage_item =
     JObject [(str ''completion_tokens'', JNumber 1), (str ''prompt_tokens'', JNumber 2),
       (str ''total_tokens'', JNumber 3)]"

definition response_item :: "jsstring \<Rightarrow> json" where
  "response_item reason =
     JObject [(str ''choices'', JArray [choice reason]), (str ''usage'', usage_item)]"

definition no_usage_item :: json where
  "no_usage_item = JObject [(str ''choices'', JArray [choice (str ''stop'')])]"

definition odd_tokens_item :: json where
  "odd_tokens_item =
     JObject [(str ''choices'', JArray [choice (str ''stop'')]),
       (str ''usage'', JObject [(str ''total_tokens'', JObject [(str ''toString'', JNumber 1)])])]"

definition no_overrides :: Partial_OpenAIChatPayload where
  "no_overrides =
     \<lparr>Partial_OpenAIChatPayload.messages = Absent,
      Partial_OpenAIChatPayload.temperature = Absent,
      Partial_OpenAIChatPayload.top_p = Absent,
      Partial_OpenAIChatPayload.frequency_penalty = Absent,
      Partial_OpenAIChatPayload.presence_penalty = Absent,
      Partial_OpenAIChatPayload.max_tokens = Absent,
      Partial_OpenAIChatPayload.stop = Absent,
      Partial_OpenAIChatPayload.response_format = Absent,
      Partial_OpenAIChatPayload.seed = Absent\<rparr>"

definition hello :: "ChatMessage list" where
  "hello = [\<lparr>role = user, content = Inr (str ''hello'')\<rparr>]"

definition bye :: "ChatMessage list" where
  "bye = [\<lparr>role = user, content = Inr (str ''bye'')\<rparr>]"

text \<open>A \<^verbatim>\<open>fetch\<close> that resolves for one request only and rejects for every other;
  the request with an empty endpoint and key, the messages and the temperature
  given, and the defaults elsewhere; and a response whose body is one chunk with
  one frame.\<close>

definition answer :: "Request \<Rightarrow> 'a \<Rightarrow> Request \<Rightarrow> error + 'a" where
  "answer expected response req = (if req = expected then Inr response else Inl NetworkError)"

definition expected_request :: "ChatMessage list \<Rightarrow> rat \<Rightarrow> bool option \<Rightarrow> Request" where
  "expected_request ms t s =
     \<lparr>url = [], http_method = str ''post'',
      headers = [(str ''Content-Type'', str ''application/json''), (str ''api-key'', [])],
      body = \<lparr>messages = Some ms, temperature = Some (JNumber t), top_p = Some (JNumber 1),
        frequency_penalty = Some (JNumber 0), presence_penalty = Some (JNumber 0),
        max_tokens = Some (JNumber 60), stop = Some (Inl []), response_format = None, seed = None,
        stream = s\<rparr>\<rparr>"

definition one_frame :: Response where
  \<open>one_frame =
     \<lparr>ok = True, status = 200, statusText = str ''OK'', response_text = [],
      response_body = Some [bytes ''data: {"choices":[]}\<newline>'']\<rparr>\<close>

section \<open>Whole lines and the carried line\<close>

lemma split_ne: "String_split s c \<noteq> []"
  by (induction s) (auto simp: Let_def)

lemma split_append: "String_split (x @ c # y) c = String_split x c @ String_split y c"
  by (induction x) (auto simp: Let_def split_ne)

lemma split_notin: "c \<notin> set s \<Longrightarrow> String_split s c = [s]"
  by (induction s) (auto simp: Let_def)

lemma lastIndexOf_notin: "c \<notin> set s \<Longrightarrow> String_lastIndexOf s c = -1"
  by (induction s) (auto simp: Let_def)

lemma lastIndexOf_in: "c \<notin> set b \<Longrightarrow> String_lastIndexOf (a @ c # b) c = int (length a)"
  by (induction a) (auto simp: Let_def lastIndexOf_notin)

lemma nat_int_Suc: "nat (int n + 1) = Suc n"
  by simp

text \<open>A window with no line feed is carried over whole; a window with one is cut
  after its last line feed.\<close>

lemma whole_carry_notin: "NL \<notin> set w \<Longrightarrow> whole w = [] \<and> carry w = w"
  by (simp add: whole_def carry_def String_slice_def String_slice_from_def lastIndexOf_notin Let_def)

lemma whole_carry_in: "NL \<notin> set b \<Longrightarrow> whole (a @ NL # b) = a @ [NL] \<and> carry (a @ NL # b) = b"
  by (simp add: whole_def carry_def String_slice_def String_slice_from_def lastIndexOf_in Let_def
      nat_int_Suc)

lemma decompose: "\<exists>a b. NL \<notin> set b \<and> (w = b \<or> w = a @ NL # b)"
proof (cases "NL \<in> set w")
  case True
  then obtain a b where "w = a @ NL # b" "NL \<notin> set b"
    by (meson split_list_last)
  then show ?thesis by blast
next
  case False
  then show ?thesis by blast
qed

lemma whole_carry: "whole w @ carry w = w"
  using decompose [of w] by (auto simp: whole_carry_in whole_carry_notin)

lemma carry_no_NL: "NL \<notin> set (carry w)"
  using decompose [of w] by (auto simp: whole_carry_in whole_carry_notin)

lemma whole_ends: "whole w = [] \<or> (\<exists>a. whole w = a @ [NL])"
  using decompose [of w] by (auto simp: whole_carry_in whole_carry_notin)

lemma whole_append: "whole (w @ c) = whole w @ whole (carry w @ c)"
proof -
  obtain a b where b: "NL \<notin> set b" and w: "w = b \<or> w = a @ NL # b"
    using decompose [of w] by blast
  obtain a' b' where b': "NL \<notin> set b'" and c: "b @ c = b' \<or> b @ c = a' @ NL # b'"
    using decompose [of "b @ c"] by blast
  from w show ?thesis
  proof
    assume "w = b"
    then show ?thesis using b by (simp add: whole_carry_notin)
  next
    assume w': "w = a @ NL # b"
    from c show ?thesis
    proof
      assume "b @ c = b'"
      then have "NL \<notin> set c" using b' by auto
      then have "NL \<notin> set (b @ c)" using b by simp
      then show ?thesis
        using w' b whole_carry_in [of "b @ c" a] by (simp add: whole_carry_in whole_carry_notin)
    next
      assume e: "b @ c = a' @ NL # b'"
      then have "w @ c = (a @ NL # a') @ NL # b'" using w' by simp
      then have "whole (w @ c) = (a @ NL # a') @ [NL]"
        using whole_carry_in [OF b', of "a @ NL # a'"] by simp
      moreover have "whole (carry w @ c) = a' @ [NL]"
        using w' b e whole_carry_in [OF b', of a'] by (simp add: whole_carry_in)
      ultimately show ?thesis using w' b by (simp add: whole_carry_in)
    qed
  qed
qed

lemma carry_append: "carry (w @ c) = carry (carry w @ c)"
proof -
  have "whole (w @ c) @ carry (w @ c) = whole w @ (carry w @ c)"
    by (simp add: whole_carry)
  also have "\<dots> = whole w @ whole (carry w @ c) @ carry (carry w @ c)"
    by (simp add: whole_carry)
  finally have "whole (w @ c) @ carry (w @ c) = whole (w @ c) @ carry (carry w @ c)"
    using whole_append [of w c] by simp
  then show ?thesis by simp
qed

lemma wholeLines_whole: "wholeLines w = filter (\<lambda>l. l \<noteq> []) (String_split (whole w) NL)"
  by (simp add: wholeLines_def whole_def)

lemma lines_whole_append:
  "filter (\<lambda>l. l \<noteq> []) (String_split (whole w @ v) NL) =
     filter (\<lambda>l. l \<noteq> []) (String_split (whole w) NL) @ filter (\<lambda>l. l \<noteq> []) (String_split v NL)"
  using whole_ends [of w] by (auto simp: split_append)

lemma wholeLines_append: "wholeLines (w @ c) = wholeLines w @ wholeLines (carry w @ c)"
  using whole_append [of w c] by (simp add: wholeLines_whole lines_whole_append)

lemma matches_append: "matches (a @ b) = matches a @ matches b"
  by (simp add: matches_def)

lemma for_matches_append:
  "for_matches P (a @ b) =
     (case for_matches P a of
        (ys, Some e) \<Rightarrow> (ys, Some e)
      | (ys, None) \<Rightarrow> (case for_matches P b of (zs, r) \<Rightarrow> (ys @ zs, r)))"
proof (induction a)
  case Nil
  then show ?case by (simp split: prod.splits)
next
  case (Cons m ms)
  then show ?case
    by (cases "P m") (simp_all split: prod.splits option.splits)
qed

section \<open>The loop and the text it has read\<close>

text \<open>What the loop yields and throws is what one pass over the whole lines of the
  decoded text yields and throws.\<close>

lemma read_loop_text:
  "yielded (read_loop P d u cs) = fst (for_matches P (matches (wholeLines (u @ concat (map d cs)))))
   \<and> thrown (read_loop P d u cs) = snd (for_matches P (matches (wholeLines (u @ concat (map d cs)))))"
  if "NL \<notin> set u"
  using that
proof (induction cs arbitrary: u)
  case Nil
  then show ?case
    by (simp add: wholeLines_whole whole_carry_notin matches_def)
next
  case (Cons c cs)
  have split: "wholeLines (u @ concat (map d (c # cs))) =
      wholeLines (u @ d c) @ wholeLines (carry (u @ d c) @ concat (map d cs))"
    using wholeLines_append [of "u @ d c" "concat (map d cs)"] by simp
  note IH = Cons.IH [OF carry_no_NL, of "u @ d c"]
  show ?case
    unfolding split matches_append for_matches_append
    using IH
    by (simp add: Let_def split: prod.splits option.splits)
qed

lemma read_loop_carry:
  "thrown (read_loop P d u cs) = None \<Longrightarrow> unfinishedLine (read_loop P d u cs) = carried d u cs"
  by (induction cs arbitrary: u) (auto simp: Let_def split: prod.splits option.splits)

lemma carried_text: "NL \<notin> set u \<Longrightarrow> carried d u cs = carry (u @ concat (map d cs))"
proof (induction cs arbitrary: u)
  case Nil
  then show ?case by (simp add: whole_carry_notin)
next
  case (Cons c cs)
  show ?case
    using Cons.IH [OF carry_no_NL, of "u @ d c"] carry_append [of "u @ d c" "concat (map d cs)"]
    by simp
qed

lemma processed_text: "NL \<notin> set u \<Longrightarrow> processed d u cs = whole (u @ concat (map d cs))"
proof (induction cs arbitrary: u)
  case Nil
  then show ?case by (simp add: whole_carry_notin)
next
  case (Cons c cs)
  show ?case
    using Cons.IH [OF carry_no_NL, of "u @ d c"] whole_append [of "u @ d c" "concat (map d cs)"]
    by simp
qed

lemma lines_seen_text: "NL \<notin> set u \<Longrightarrow> lines_seen d u cs = wholeLines (u @ concat (map d cs))"
proof (induction cs arbitrary: u)
  case Nil
  then show ?case by (simp add: wholeLines_whole whole_carry_notin)
next
  case (Cons c cs)
  show ?case
    using Cons.IH [OF carry_no_NL, of "u @ d c"] wholeLines_append [of "u @ d c" "concat (map d cs)"]
    by simp
qed

lemma carry_takeWhile: "carry w = rev (takeWhile (\<lambda>c. c \<noteq> NL) (rev w))"
proof -
  obtain a b where b: "NL \<notin> set b" and w: "w = b \<or> w = a @ NL # b"
    using decompose [of w] by blast
  have nb: "\<forall>x\<in>set (rev b). x \<noteq> NL"
    using b by auto
  from w show ?thesis
  proof
    assume e: "w = b"
    have "takeWhile (\<lambda>c. c \<noteq> NL) (rev b) = rev b"
      using nb by simp
    then have "rev (takeWhile (\<lambda>c. c \<noteq> NL) (rev b)) = b"
      by (simp only: rev_rev_ident)
    moreover have "carry b = b"
      using b by (simp add: whole_carry_notin)
    ultimately show ?thesis
      unfolding e by (rule ssubst)
  next
    assume e: "w = a @ NL # b"
    have "takeWhile (\<lambda>c. c \<noteq> NL) (rev b @ NL # rev a) = rev b"
      using nb by (simp add: takeWhile_append)
    then have "rev (takeWhile (\<lambda>c. c \<noteq> NL) (rev (a @ NL # b))) = b"
      by (simp only: rev_append rev.simps append_assoc append_Cons append_Nil rev_rev_ident)
    moreover have "carry (a @ NL # b) = b"
      using b by (simp add: whole_carry_in)
    ultimately show ?thesis
      unfolding e by (rule ssubst)
  qed
qed

lemma split_butlast: "wholeLines w = filter (\<lambda>l. l \<noteq> []) (butlast (String_split w NL))"
  using decompose [of w]
  by (auto simp: wholeLines_whole whole_carry_in whole_carry_notin split_append split_notin
      butlast_append split_ne)

lemma run_of_text:
  assumes "concat (map d cs) = T" and "matches (wholeLines T) = ms" and "for_matches P ms = (ys, r)"
  shows "yielded (read_loop P d [] cs) = ys \<and> thrown (read_loop P d [] cs) = r"
  using read_loop_text [of "[]" P d cs] assms by simp

lemma carry_of_text:
  assumes "concat (map d cs) = T" and "thrown (read_loop P d [] cs) = None"
  shows "unfinishedLine (read_loop P d [] cs) = carry T"
  using read_loop_carry [OF assms(2)] carried_text [of "[]" d cs] assms(1) by simp

lemma wholeLines_residue: "NL \<notin> set r \<Longrightarrow> wholeLines (w @ r) = wholeLines w"
proof -
  assume r: "NL \<notin> set r"
  have "NL \<notin> set (carry w @ r)"
    using r carry_no_NL [of w] by simp
  then have "wholeLines (carry w @ r) = []"
    by (simp add: wholeLines_whole whole_carry_notin)
  then show ?thesis
    using wholeLines_append [of w r] by simp
qed

lemma carry_residue: "NL \<notin> set r \<Longrightarrow> carry (w @ r) = carry w @ r"
proof -
  assume r: "NL \<notin> set r"
  have "NL \<notin> set (carry w @ r)"
    using r carry_no_NL [of w] by simp
  then have "carry (carry w @ r) = carry w @ r"
    by (simp add: whole_carry_notin)
  then show ?thesis
    using carry_append [of w r] by simp
qed

lemma wholeLines_cut:
  assumes "before = [] \<or> last before = NL"
  shows "wholeLines (before @ after) = wholeLines before @ wholeLines after"
    and "carry (before @ after) = carry after"
proof -
  have wc: "whole before = before \<and> carry before = []"
  proof (cases "before = []")
    case True
    then show ?thesis by (simp add: whole_carry_notin)
  next
    case False
    then have "before = butlast before @ NL # []"
      using assms by (metis append_butlast_last_id)
    then show ?thesis
      using whole_carry_in [of "[]" "butlast before"] by simp
  qed
  show "wholeLines (before @ after) = wholeLines before @ wholeLines after"
    using wholeLines_append [of before after] wc by simp
  show "carry (before @ after) = carry after"
    using carry_append [of before after] wc by simp
qed

lemma wholeLines_line:
  assumes "NL \<notin> set line"
  shows "wholeLines (line @ NL # after) = filter (\<lambda>l. l \<noteq> []) [line] @ wholeLines after"
proof -
  have "wholeLines ((line @ [NL]) @ after) = wholeLines (line @ [NL]) @ wholeLines after"
    by (rule wholeLines_cut) simp
  moreover have "wholeLines (line @ [NL]) = filter (\<lambda>l. l \<noteq> []) [line]"
    using assms whole_carry_in [of "[]" line] by (simp add: wholeLines_whole split_append split_notin)
  ultimately show ?thesis by simp
qed



text \<open>The loop of getChatStream is \<open>read_loop\<close> on the chunks of the body, from an
  empty \<^verbatim>\<open>unfinishedLine\<close>, with the UTF-8 decoder.\<close>

lemma getChatStream_read_loop:
  assumes "fetch (request endpoint apiKey (payload msgs config) (Some True)) = Inr response"
    and "ok response" and "response_body response = Some chunks"
  shows "getChatStream fetch JSON_parse endpoint apiKey msgs config =
         read_loop JSON_parse TextDecoder_decode [] chunks"
  using assms by (simp add: getChatStream_def)

text \<open>The chunks read so far leave the state the later chunks start from.\<close>

lemma carried_append: "carried d u (cs @ cs') = carried d (carried d u cs) cs'"
  by (induction cs arbitrary: u) simp_all

lemma lines_seen_append:
  "lines_seen d u (cs @ cs') = lines_seen d u cs @ lines_seen d (carried d u cs) cs'"
  by (induction cs arbitrary: u) simp_all

section \<open>Evaluating the examples\<close>

lemmas decode_eval = TextDecoder_decode_def bytes_def str_def utf8_initial_def utf8_lead_def utf16_def

lemmas lines_eval = carry_def whole_def wholeLines_def String_slice_def String_slice_from_def NL_def str_def

lemmas match_eval = matches_def data_match_def LineTerminator_def str_def

lemma str_append: "str a @ str b = str (a @ b)"
  by (simp add: str_def)

text \<open>One frame with an empty array of choices, used in several examples.\<close>

lemma ex_frame: \<open>TextDecoder_decode (bytes ''data: {"choices":[]}\<newline>'') = str ''data: {"choices":[]}\<newline>''\<close>
  by (simp add: decode_eval)

lemma ex_frame_lines: \<open>wholeLines (str ''data: {"choices":[]}\<newline>'') = [str ''data: {"choices":[]}'']\<close>
  by (simp add: lines_eval)

lemma ex_matches: \<open>matches [str ''data: {"choices":[]}''] = [str ''{"choices":[]}'']\<close>
  by (simp add: match_eval)

lemma ex_frame_matches: \<open>matches (wholeLines (str ''data: {"choices":[]}\<newline>'')) = [str ''{"choices":[]}'']\<close>
  by (simp only: ex_frame_lines ex_matches)

lemma ex_for: \<open>for_matches JSON_parse_examples [str ''{"choices":[]}''] = ([choices_item (JArray [])], None)\<close>
  by (simp add: JSON_parse_examples_def choices_item_def str_def)

section \<open>The request and its answer\<close>

text \<open>What the two functions do is what \<^verbatim>\<open>fetch\<close> answers to one request, the one
  whose body is the payload: its failure is the failure of the call, and its
  response is what the rest of the function works on.\<close>

lemma getChatResponse_fetch:
  "(fetch_json (request endpoint apiKey (payload msgs config) None) = Inl e \<longrightarrow>
      getChatResponse fetch_json endpoint apiKey msgs config = Inl e)
   \<and> (fetch_json (request endpoint apiKey (payload msgs config) None) = Inr result \<longrightarrow>
      getChatResponse fetch_json endpoint apiKey msgs config = checked result)"
  by (simp add: getChatResponse_def)

lemma getChatStream_fetch:
  "(fetch (request endpoint apiKey (payload msgs config) (Some True)) = Inl e \<longrightarrow>
      getChatStream fetch JSON_parse endpoint apiKey msgs config =
        \<lparr>yielded = [], thrown = Some e, unfinishedLine = []\<rparr>)
   \<and> (fetch (request endpoint apiKey (payload msgs config) (Some True)) = Inr response
        \<and> ok response \<and> response_body response = Some chunks \<longrightarrow>
      getChatStream fetch JSON_parse endpoint apiKey msgs config =
        read_loop JSON_parse TextDecoder_decode [] chunks)"
  by (simp add: getChatStream_def)

lemma spread_defined: "m \<noteq> Absent \<Longrightarrow> spread d m = defined m"
  by (cases m) simp_all

lemma ex_checked_stop: "checked (response_item (str ''stop'')) = Inr (response_item (str ''stop''))"
  by (simp add: checked_def finish_reason_def response_item_def choice_def usage_item_def str_def)

lemma ex_one_frame:
  "ok one_frame"
  \<open>response_body one_frame = Some [bytes ''data: {"choices":[]}\<newline>'']\<close>
  by (simp_all add: one_frame_def)

lemma ex_one_frame_run:
  \<open>read_loop JSON_parse_examples TextDecoder_decode [] [bytes ''data: {"choices":[]}\<newline>''] =
     \<lparr>yielded = [choices_item (JArray [])], thrown = None, unfinishedLine = []\<rparr>\<close>
proof -
  define cs where \<open>cs = [bytes ''data: {"choices":[]}\<newline>'']\<close>
  have T: \<open>concat (map TextDecoder_decode cs) = str ''data: {"choices":[]}\<newline>''\<close>
    by (simp add: cs_def ex_frame)
  have r: "yielded (read_loop JSON_parse_examples TextDecoder_decode [] cs) = [choices_item (JArray [])]
      \<and> thrown (read_loop JSON_parse_examples TextDecoder_decode [] cs) = None"
    using run_of_text [OF T ex_frame_matches ex_for] .
  then have u: "unfinishedLine (read_loop JSON_parse_examples TextDecoder_decode [] cs) = []"
    using carry_of_text [OF T, of JSON_parse_examples] by (simp add: lines_eval)
  have "read_loop JSON_parse_examples TextDecoder_decode [] cs =
     \<lparr>yielded = [choices_item (JArray [])], thrown = None, unfinishedLine = []\<rparr>"
    using r u by (cases "read_loop JSON_parse_examples TextDecoder_decode [] cs") simp
  then show ?thesis
    unfolding cs_def .
qed

lemma ex_requests:
  "request [] [] (payload hello
      (Some (no_overrides\<lparr>Partial_OpenAIChatPayload.temperature := Value (Finite 1)\<rparr>))) s =
     expected_request hello 1 s"
  "request [] [] (payload hello
      (Some (no_overrides\<lparr>Partial_OpenAIChatPayload.messages := Value bye\<rparr>))) s =
     expected_request bye (7 / 10) s"
  by (simp_all add: request_def payload_def JSON_stringify_def no_overrides_def expected_request_def)

section \<open>Chunks that split the stream\<close>

text \<open>Where chunks do not matter: the run depends on the chunks only through the
  decoded text, and a stream of ASCII bytes decodes to the same text however it is
  cut.\<close>

lemma partition_text:
  assumes "concat (map d cs) = concat (map d cs')"
  shows "yielded (read_loop P d [] cs) = yielded (read_loop P d [] cs')
     \<and> thrown (read_loop P d [] cs) = thrown (read_loop P d [] cs')"
  using read_loop_text [of "[]" P d cs] read_loop_text [of "[]" P d cs'] assms by simp

lemma utf8_ascii: "list_all (\<lambda>b. b \<le> 0x7F) bs \<Longrightarrow> utf8_decode utf8_initial bs = map unat bs"
proof (induction bs)
  case Nil
  then show ?case by (simp add: utf8_initial_def)
next
  case (Cons b bs)
  then have "utf8_lead b = ([unat b], utf8_initial)"
    by (simp add: utf8_lead_def)
  moreover have "bytes_needed utf8_initial = 0"
    by (simp add: utf8_initial_def)
  ultimately show ?case
    using Cons by simp
qed

lemma unat_ascii: "b \<le> 0x7F \<Longrightarrow> unat b < 0x10000 \<and> unat b \<noteq> 0xFEFF" for b :: byte
  by (simp add: word_le_nat_alt)

lemma decode_ascii:
  assumes "list_all (\<lambda>b. b \<le> 0x7F) bs"
  shows "TextDecoder_decode bs = map (\<lambda>b. of_nat (unat b)) bs"
proof -
  let ?cps = "map unat bs"
  have u: "concat (map utf16 ?cps) = map (\<lambda>b. of_nat (unat b)) bs"
    using assms by (induction bs) (auto simp: utf16_def unat_ascii)
  have "\<not> (?cps \<noteq> [] \<and> hd ?cps = 0xFEFF)"
    using assms unat_ascii by (cases bs) auto
  then have "(if ?cps \<noteq> [] \<and> hd ?cps = 0xFEFF then tl ?cps else ?cps) = ?cps"
    by (simp only: if_False)
  then have "TextDecoder_decode bs = concat (map utf16 ?cps)"
    unfolding TextDecoder_decode_def utf8_ascii [OF assms] Let_def by (rule arg_cong)
  then show ?thesis
    using u by simp
qed

lemma partition_ascii:
  assumes "concat cs = concat cs'" and "list_all (\<lambda>b. b \<le> 0x7F) (concat cs)"
  shows "yielded (read_loop P TextDecoder_decode [] cs) = yielded (read_loop P TextDecoder_decode [] cs')
     \<and> thrown (read_loop P TextDecoder_decode [] cs) = thrown (read_loop P TextDecoder_decode [] cs')"
proof (rule partition_text)
  have d: "concat (map TextDecoder_decode xs) = map (\<lambda>b. of_nat (unat b)) (concat xs)"
    if "list_all (\<lambda>b. b \<le> 0x7F) (concat xs)" for xs
    using that by (induction xs) (auto simp: decode_ascii)
  show "concat (map TextDecoder_decode cs) = concat (map TextDecoder_decode cs')"
    using d [of cs] d [of cs'] assms by simp
qed

text \<open>A text of \<open>N\<close> frames, each on a line of its own and each a valid item, gives
  the \<open>N\<close> items in order.\<close>

lemma wholeLines_frames:
  assumes "list_all (\<lambda>l. l \<noteq> [] \<and> NL \<notin> set l) ls"
  shows "wholeLines (concat (map (\<lambda>l. l @ [NL]) ls)) = ls"
  using assms
proof (induction ls)
  case Nil
  then show ?case by (simp add: wholeLines_whole whole_carry_notin)
next
  case (Cons l ls)
  then show ?case
    using wholeLines_line [of l "concat (map (\<lambda>l. l @ [NL]) ls)"] by simp
qed

lemma for_matches_valid:
  assumes "list_all (\<lambda>m. \<exists>item. P m = Inr item
      \<and> \<not> truthy (opt_get (opt_get (Some item) (str ''error'')) (str ''message''))
      \<and> Array_isArray (opt_get (Some item) (str ''choices''))) ms"
  shows "for_matches P ms = (map (\<lambda>m. projr (P m)) ms, None)"
  using assms by (induction ms) auto

lemma data_match_nonempty: "data_match l = Some m \<Longrightarrow> m \<noteq> []"
  by (auto simp: data_match_def split: if_splits)

lemma frames_yielded:
  assumes "concat (map d cs) = concat (map (\<lambda>m. (str ''data: '' @ m) @ [NL]) ms)"
    and "list_all (\<lambda>m. NL \<notin> set m \<and> data_match (str ''data: '' @ m) = Some m) ms"
    and "list_all (\<lambda>m. \<exists>item. P m = Inr item
      \<and> \<not> truthy (opt_get (opt_get (Some item) (str ''error'')) (str ''message''))
      \<and> Array_isArray (opt_get (Some item) (str ''choices''))) ms"
  shows "yielded (read_loop P d [] cs) = map (\<lambda>m. projr (P m)) ms
     \<and> thrown (read_loop P d [] cs) = None"
proof -
  have nl: "NL \<notin> set (str ''data: '')"
    by (simp add: str_def NL_def)
  have "list_all (\<lambda>l. l \<noteq> [] \<and> NL \<notin> set l) (map (\<lambda>m. str ''data: '' @ m) ms)"
    using assms(2) nl by (induction ms) (auto simp: str_def)
  then have "wholeLines (concat (map (\<lambda>l. l @ [NL]) (map (\<lambda>m. str ''data: '' @ m) ms))) =
      map (\<lambda>m. str ''data: '' @ m) ms"
    by (rule wholeLines_frames)
  then have w: "wholeLines (concat (map d cs)) = map (\<lambda>m. str ''data: '' @ m) ms"
    using assms(1) by (simp add: comp_def)
  have m: "matches (map (\<lambda>m. str ''data: '' @ m) ms) = ms"
    using assms(2) by (induction ms) (auto simp: matches_def dest: data_match_nonempty)
  show ?thesis
    using run_of_text [OF refl _ for_matches_valid [OF assms(3)], of d cs] w m by simp
qed

lemma ex_whole_stream:
  \<open>TextDecoder_decode (bytes ''data: {"choices":[{"delta":{"content":"'' @ [0xC3, 0xA9] @ bytes ''"}}]}\<newline>'') =
    str ''data: {"choices":[{"delta":{"content":"'' @ e_acute @ str ''"}}]}\<newline>''\<close>
  by (simp add: decode_eval e_acute_def)

lemma ex_first_part:
  \<open>TextDecoder_decode (bytes ''data: {"choices":[{"delta":{"content":"'' @ [0xC3]) =
    str ''data: {"choices":[{"delta":{"content":"'' @ [0xFFFD]\<close>
  by (simp add: decode_eval)

lemma ex_second_part:
  \<open>TextDecoder_decode ([0xA9] @ bytes ''"}}]}\<newline>'') = [0xFFFD] @ str ''"}}]}\<newline>''\<close>
  by (simp add: decode_eval)

lemma ex_content_lines:
  \<open>wholeLines (str ''data: {"choices":[{"delta":{"content":"'' @ e_acute @ str ''"}}]}\<newline>'') =
    [str ''data: {"choices":[{"delta":{"content":"'' @ e_acute @ str ''"}}]}'']\<close>
  \<open>wholeLines (str ''data: {"choices":[{"delta":{"content":"'' @ replaced @ str ''"}}]}\<newline>'') =
    [str ''data: {"choices":[{"delta":{"content":"'' @ replaced @ str ''"}}]}'']\<close>
  by (simp_all add: lines_eval e_acute_def replaced_def)

lemma ex_content_data:
  \<open>matches [str ''data: {"choices":[{"delta":{"content":"'' @ e_acute @ str ''"}}]}''] =
    [str ''{"choices":[{"delta":{"content":"'' @ e_acute @ str ''"}}]}'']\<close>
  \<open>matches [str ''data: {"choices":[{"delta":{"content":"'' @ replaced @ str ''"}}]}''] =
    [str ''{"choices":[{"delta":{"content":"'' @ replaced @ str ''"}}]}'']\<close>
  by (simp_all add: match_eval e_acute_def replaced_def)

lemma ex_content_matches:
  \<open>matches (wholeLines (str ''data: {"choices":[{"delta":{"content":"'' @ e_acute @ str ''"}}]}\<newline>'')) =
    [str ''{"choices":[{"delta":{"content":"'' @ e_acute @ str ''"}}]}'']\<close>
  \<open>matches (wholeLines (str ''data: {"choices":[{"delta":{"content":"'' @ replaced @ str ''"}}]}\<newline>'')) =
    [str ''{"choices":[{"delta":{"content":"'' @ replaced @ str ''"}}]}'']\<close>
  by (simp_all only: ex_content_lines ex_content_data)

lemma ex_content_for:
  \<open>for_matches JSON_parse_examples [str ''{"choices":[{"delta":{"content":"'' @ e_acute @ str ''"}}]}''] =
     ([content_item e_acute], None)\<close>
  \<open>for_matches JSON_parse_examples [str ''{"choices":[{"delta":{"content":"'' @ replaced @ str ''"}}]}''] =
     ([content_item replaced], None)\<close>
  by (simp_all add: JSON_parse_examples_def content_item_def e_acute_def replaced_def str_def)

text \<open>
  C1 at a stream with a character of two bytes. The stream is one frame whose
  content is the letter U+00E9, in UTF-8 the bytes C3 A9. Read as one chunk, the
  frame is yielded with this content. Read as two chunks that part between the two
  bytes, the frame is yielded with two U+FFFD in place of the letter: line 163
  decodes each chunk on its own.
\<close>

theorem split_character_replaced:
  \<open>concat [bytes ''data: {"choices":[{"delta":{"content":"'' @ [0xC3], [0xA9] @ bytes ''"}}]}\<newline>''] =
     bytes ''data: {"choices":[{"delta":{"content":"'' @ [0xC3, 0xA9] @ bytes ''"}}]}\<newline>''
   \<and> yielded (read_loop JSON_parse_examples TextDecoder_decode []
        [bytes ''data: {"choices":[{"delta":{"content":"'' @ [0xC3, 0xA9] @ bytes ''"}}]}\<newline>'']) =
       [content_item e_acute]
   \<and> yielded (read_loop JSON_parse_examples TextDecoder_decode []
        [bytes ''data: {"choices":[{"delta":{"content":"'' @ [0xC3], [0xA9] @ bytes ''"}}]}\<newline>'']) =
       [content_item replaced]
   \<and> content_item e_acute \<noteq> content_item replaced\<close>
proof -
  define one where \<open>one = [bytes ''data: {"choices":[{"delta":{"content":"'' @ [0xC3, 0xA9] @ bytes ''"}}]}\<newline>'']\<close>
  define two where \<open>two = [bytes ''data: {"choices":[{"delta":{"content":"'' @ [0xC3], [0xA9] @ bytes ''"}}]}\<newline>'']\<close>
  have T1: \<open>concat (map TextDecoder_decode one) =
      str ''data: {"choices":[{"delta":{"content":"'' @ e_acute @ str ''"}}]}\<newline>''\<close>
    unfolding one_def using ex_whole_stream by simp
  have T2: \<open>concat (map TextDecoder_decode two) =
      str ''data: {"choices":[{"delta":{"content":"'' @ replaced @ str ''"}}]}\<newline>''\<close>
    unfolding two_def using ex_first_part ex_second_part by (simp add: replaced_def)
  have \<open>concat two =
      bytes ''data: {"choices":[{"delta":{"content":"'' @ [0xC3, 0xA9] @ bytes ''"}}]}\<newline>''
    \<and> yielded (read_loop JSON_parse_examples TextDecoder_decode [] one) = [content_item e_acute]
    \<and> yielded (read_loop JSON_parse_examples TextDecoder_decode [] two) = [content_item replaced]
    \<and> content_item e_acute \<noteq> content_item replaced\<close>
  proof (intro conjI)
    show \<open>concat two =
      bytes ''data: {"choices":[{"delta":{"content":"'' @ [0xC3, 0xA9] @ bytes ''"}}]}\<newline>''\<close>
      by (simp add: two_def)
    show "yielded (read_loop JSON_parse_examples TextDecoder_decode [] one) = [content_item e_acute]"
      using run_of_text [OF T1 ex_content_matches(1) ex_content_for(1)] by blast
    show "yielded (read_loop JSON_parse_examples TextDecoder_decode [] two) = [content_item replaced]"
      using run_of_text [OF T2 ex_content_matches(2) ex_content_for(2)] by blast
    show "content_item e_acute \<noteq> content_item replaced"
      by (simp add: content_item_def e_acute_def replaced_def)
  qed
  then show ?thesis
    unfolding one_def two_def .
qed

section \<open>The state of the reassembler\<close>

text \<open>
  On the text the chunks decode to, the state is as follows. Whatever the chunks
  and the decoder, once the chunks are read the line carried over is the decoded
  text after its last line feed (all of it when it has none); the text handed on
  as whole lines and the line carried over are, one after the other, the decoded
  text; the text handed on is empty or ends with a line feed, and its lines are
  the non-empty lines of the decoded text that a line feed ends; the items yielded
  come from these lines only; and when no exception ended the loop,
  \<^verbatim>\<open>unfinishedLine\<close> is the line carried over.
\<close>

lemma reassembler_text:
  "carried decode [] chunks = rev (takeWhile (\<lambda>c. c \<noteq> NL) (rev (concat (map decode chunks))))
   \<and> processed decode [] chunks @ carried decode [] chunks = concat (map decode chunks)
   \<and> (processed decode [] chunks = [] \<or> last (processed decode [] chunks) = NL)
   \<and> lines_seen decode [] chunks =
       filter (\<lambda>l. l \<noteq> []) (butlast (String_split (concat (map decode chunks)) NL))
   \<and> yielded (read_loop JSON_parse decode [] chunks) =
       fst (for_matches JSON_parse (matches (lines_seen decode [] chunks)))
   \<and> (thrown (read_loop JSON_parse decode [] chunks) = None \<longrightarrow>
       unfinishedLine (read_loop JSON_parse decode [] chunks) = carried decode [] chunks)"
proof -
  let ?T = "concat (map decode chunks)"
  have c: "carried decode [] chunks = carry ?T"
    using carried_text [of "[]" decode chunks] by simp
  have p: "processed decode [] chunks = whole ?T"
    using processed_text [of "[]" decode chunks] by simp
  have l: "lines_seen decode [] chunks = wholeLines ?T"
    using lines_seen_text [of "[]" decode chunks] by simp
  have "carried decode [] chunks = rev (takeWhile (\<lambda>c. c \<noteq> NL) (rev ?T))"
    unfolding c by (rule carry_takeWhile)
  moreover have "processed decode [] chunks @ carried decode [] chunks = ?T"
    unfolding c p by (rule whole_carry)
  moreover have "processed decode [] chunks = [] \<or> last (processed decode [] chunks) = NL"
    unfolding p using whole_ends [of ?T] by auto
  moreover have "lines_seen decode [] chunks = filter (\<lambda>l. l \<noteq> []) (butlast (String_split ?T NL))"
    unfolding l by (rule split_butlast)
  moreover have "yielded (read_loop JSON_parse decode [] chunks) =
       fst (for_matches JSON_parse (matches (lines_seen decode [] chunks)))"
    unfolding l using read_loop_text [of "[]" JSON_parse decode chunks] by simp
  moreover have "thrown (read_loop JSON_parse decode [] chunks) = None \<longrightarrow>
       unfinishedLine (read_loop JSON_parse decode [] chunks) = carried decode [] chunks"
    using read_loop_carry [of JSON_parse decode "[]" chunks] by blast
  ultimately show ?thesis by blast
qed

text \<open>A text with no line feed is carried over whole and nothing is yielded.\<close>

lemma unfinished_text:
  assumes "concat (map d cs) = T" and "NL \<notin> set T"
  shows "unfinishedLine (read_loop P d [] cs) = T \<and> processed d [] cs = []
     \<and> yielded (read_loop P d [] cs) = [] \<and> thrown (read_loop P d [] cs) = None"
proof -
  have w: "matches (wholeLines T) = []"
    using assms(2) by (simp add: wholeLines_whole whole_carry_notin matches_def)
  have f: "for_matches P [] = ([], None)"
    by simp
  have r: "yielded (read_loop P d [] cs) = [] \<and> thrown (read_loop P d [] cs) = None"
    using run_of_text [OF assms(1) w f] .
  then have "unfinishedLine (read_loop P d [] cs) = carry T"
    using carry_of_text [OF assms(1), of P] by simp
  moreover have "processed d [] cs = whole T"
    using processed_text [of "[]" d cs] assms(1) by simp
  ultimately show ?thesis
    using r assms(2) by (simp add: whole_carry_notin)
qed

lemma ex_id_whole:
  \<open>TextDecoder_decode (concat [bytes ''data: {"id":"'', [0xEF, 0xBB, 0xBF] @ bytes ''"'']) =
     str ''data: {"id":"'' @ [0xFEFF] @ str ''"''\<close>
  \<open>TextDecoder_decode (concat [bytes ''data: {"id":"'' @ [0xC3], [0xA9] @ bytes ''"'']) =
     str ''data: {"id":"'' @ e_acute @ str ''"''\<close>
  by (simp_all add: decode_eval e_acute_def)

lemma ex_id_parts:
  \<open>concat (map TextDecoder_decode [bytes ''data: {"id":"'', [0xEF, 0xBB, 0xBF] @ bytes ''"'']) =
     str ''data: {"id":""''\<close>
  \<open>concat (map TextDecoder_decode [bytes ''data: {"id":"'' @ [0xC3], [0xA9] @ bytes ''"'']) =
     str ''data: {"id":"'' @ replaced @ str ''"''\<close>
  by (simp_all add: decode_eval replaced_def)

lemma ex_id_no_NL:
  \<open>NL \<notin> set (str ''data: {"id":""'')\<close>
  \<open>NL \<notin> set (str ''data: {"id":"'' @ replaced @ str ''"'')\<close>
  by (simp_all add: str_def NL_def replaced_def)

text \<open>
  C2 at two streams whose chunks part at a character. In the first the second
  chunk opens with the three bytes EF BB BF of the character U+FEFF: the decoder
  takes them for a byte order mark and drops them, so after the two chunks these
  bytes of the input are neither in a line handed on nor in the line carried
  over. In the second the chunks part between the bytes C3 and A9 of the letter
  U+00E9: the line carried over holds two U+FFFD in its place. In both the line
  carried over is not the text of the bytes after the last line feed, which is the
  text of all the bytes.
\<close>

theorem carried_line_loses_bytes:
  \<open>TextDecoder_decode (concat [bytes ''data: {"id":"'', [0xEF, 0xBB, 0xBF] @ bytes ''"'']) =
     str ''data: {"id":"'' @ [0xFEFF] @ str ''"''
   \<and> unfinishedLine (read_loop JSON_parse_examples TextDecoder_decode []
        [bytes ''data: {"id":"'', [0xEF, 0xBB, 0xBF] @ bytes ''"'']) = str ''data: {"id":""''
   \<and> processed TextDecoder_decode [] [bytes ''data: {"id":"'', [0xEF, 0xBB, 0xBF] @ bytes ''"''] = []
   \<and> TextDecoder_decode (concat [bytes ''data: {"id":"'' @ [0xC3], [0xA9] @ bytes ''"'']) =
     str ''data: {"id":"'' @ e_acute @ str ''"''
   \<and> unfinishedLine (read_loop JSON_parse_examples TextDecoder_decode []
        [bytes ''data: {"id":"'' @ [0xC3], [0xA9] @ bytes ''"'']) =
     str ''data: {"id":"'' @ replaced @ str ''"''
   \<and> processed TextDecoder_decode [] [bytes ''data: {"id":"'' @ [0xC3], [0xA9] @ bytes ''"''] = []\<close>
  using ex_id_whole
    unfinished_text [OF ex_id_parts(1) ex_id_no_NL(1), of JSON_parse_examples]
    unfinished_text [OF ex_id_parts(2) ex_id_no_NL(2), of JSON_parse_examples]
  by blast

section \<open>Errors sent in a frame\<close>









section \<open>Frames without an array of choices\<close>











section \<open>The finish reason\<close>

lemma finish_reason_Inr:
  "finish_reason result = Inr reason \<Longrightarrow> get (Some result) k = Inr (opt_get (Some result) k)"
  by (cases result) (simp_all add: finish_reason_def)

text \<open>
  C5, as the code has it. When the request resolves to a response: if the finish
  reason of the top choice, \<^verbatim>\<open>result.choices[0]?.finish_reason\<close>, is not the string
  \<^verbatim>\<open>stop\<close> (another string, \<^verbatim>\<open>null\<close>, missing, or the expression itself throws),
  the call fails, whatever else the response holds; if it is \<^verbatim>\<open>stop\<close>, the
  \<^verbatim>\<open>error\<close> member is missing or falsy, the response has a \<^verbatim>\<open>usage\<close> member that
  is not \<^verbatim>\<open>null\<close>, and \<^verbatim>\<open>usage.total_tokens\<close> has a string conversion (as every
  number, string, boolean, \<^verbatim>\<open>null\<close> and missing member has), the call returns the
  response; and if it is \<^verbatim>\<open>stop\<close>, the \<^verbatim>\<open>error\<close> member is missing or falsy, and
  \<^verbatim>\<open>usage\<close> is missing or \<^verbatim>\<open>null\<close> or its \<^verbatim>\<open>total_tokens\<close> has no string
  conversion, the call fails with a TypeError.
\<close>

theorem finish_reason_checked:
  assumes "fetch_json (request endpoint apiKey (payload msgs config) None) = Inr result"
  shows "(finish_reason result \<noteq> Inr (Some (JString (str ''stop''))) \<longrightarrow>
            (\<exists>e. getChatResponse fetch_json endpoint apiKey msgs config = Inl e))
     \<and> (finish_reason result = Inr (Some (JString (str ''stop'')))
          \<and> \<not> truthy (opt_get (Some result) (str ''error''))
          \<and> opt_get (Some result) (str ''usage'') \<noteq> None
          \<and> opt_get (Some result) (str ''usage'') \<noteq> Some JNull
          \<and> \<not> conversion_throws (opt_get (opt_get (Some result) (str ''usage'')) (str ''total_tokens'')) \<longrightarrow>
            getChatResponse fetch_json endpoint apiKey msgs config = Inr result)
     \<and> (finish_reason result = Inr (Some (JString (str ''stop'')))
          \<and> \<not> truthy (opt_get (Some result) (str ''error''))
          \<and> (opt_get (Some result) (str ''usage'') = None
             \<or> opt_get (Some result) (str ''usage'') = Some JNull
             \<or> conversion_throws (opt_get (opt_get (Some result) (str ''usage'')) (str ''total_tokens''))) \<longrightarrow>
            getChatResponse fetch_json endpoint apiKey msgs config = Inl TypeError)"
proof (intro conjI impI)
  assume n: "finish_reason result \<noteq> Inr (Some (JString (str ''stop'')))"
  have "\<exists>e. checked result = Inl e"
  proof (cases "finish_reason result")
    case (Inl e)
    then show ?thesis
      by (auto simp: checked_def split: sum.splits)
  next
    case (Inr reason)
    then have "reason \<noteq> Some (JString (str ''stop''))"
      using n by simp
    then show ?thesis
      using Inr by (auto simp: checked_def split: sum.splits)
  qed
  then show "\<exists>e. getChatResponse fetch_json endpoint apiKey msgs config = Inl e"
    using assms by (simp add: getChatResponse_def)
next
  assume a: "finish_reason result = Inr (Some (JString (str ''stop'')))
          \<and> \<not> truthy (opt_get (Some result) (str ''error''))
          \<and> opt_get (Some result) (str ''usage'') \<noteq> None
          \<and> opt_get (Some result) (str ''usage'') \<noteq> Some JNull
          \<and> \<not> conversion_throws (opt_get (opt_get (Some result) (str ''usage'')) (str ''total_tokens''))"
  then obtain u where u: "opt_get (Some result) (str ''usage'') = Some u" "u \<noteq> JNull"
    by auto
  have "get (Some u) (str ''total_tokens'') = Inr (opt_get (Some u) (str ''total_tokens''))"
    using u(2) by (cases u) simp_all
  then have "checked result = Inr result"
    using a u finish_reason_Inr [of result "Some (JString (str ''stop''))"]
    by (simp add: checked_def)
  then show "getChatResponse fetch_json endpoint apiKey msgs config = Inr result"
    using assms by (simp add: getChatResponse_def)
next
  assume a: "finish_reason result = Inr (Some (JString (str ''stop'')))
          \<and> \<not> truthy (opt_get (Some result) (str ''error''))
          \<and> (opt_get (Some result) (str ''usage'') = None
             \<or> opt_get (Some result) (str ''usage'') = Some JNull
             \<or> conversion_throws (opt_get (opt_get (Some result) (str ''usage'')) (str ''total_tokens'')))"
  have g: "get (Some result) k = Inr (opt_get (Some result) k)" for k
    using a finish_reason_Inr [of result "Some (JString (str ''stop''))"] by simp
  have "checked result = Inl TypeError"
  proof (cases "opt_get (Some result) (str ''usage'')")
    case None
    then show ?thesis
      using a g by (simp add: checked_def)
  next
    case (Some u)
    show ?thesis
    proof (cases "u = JNull")
      case True
      then show ?thesis
        using a g Some by (simp add: checked_def)
    next
      case False
      then have "get (Some u) (str ''total_tokens'') = Inr (opt_get (Some u) (str ''total_tokens''))"
        by (cases u) simp_all
      then show ?thesis
        using a g Some False by (simp add: checked_def)
    qed
  qed
  then show "getChatResponse fetch_json endpoint apiKey msgs config = Inl TypeError"
    using assms by (simp add: getChatResponse_def)
qed

lemma ex_response:
  "finish_reason (response_item r) = Inr (Some (JString r))"
  "opt_get (Some (response_item r)) (str ''error'') = None"
  "opt_get (Some (response_item r)) (str ''usage'') = Some usage_item"
  "opt_get (Some usage_item) (str ''total_tokens'') = Some (JNumber 3)"
  "usage_item \<noteq> JNull"
  by (simp_all add: finish_reason_def response_item_def choice_def usage_item_def str_def)

lemma ex_odd_tokens:
  "finish_reason odd_tokens_item = Inr (Some (JString (str ''stop'')))"
  "opt_get (Some odd_tokens_item) (str ''error'') = None"
  "conversion_throws (opt_get (opt_get (Some odd_tokens_item) (str ''usage'')) (str ''total_tokens''))"
  by (simp_all add: finish_reason_def odd_tokens_item_def choice_def str_def)

theorem finish_reason_checked_witness:
  "(\<exists>e. getChatResponse (respond (response_item (str ''length''))) [] [] [] None = Inl e)
   \<and> getChatResponse (respond (response_item (str ''stop''))) [] [] [] None =
       Inr (response_item (str ''stop''))
   \<and> getChatResponse (respond odd_tokens_item) [] [] [] None = Inl TypeError"
proof -
  have l: "str ''length'' \<noteq> str ''stop''"
    by (simp add: str_def)
  have "\<exists>e. getChatResponse (respond (response_item (str ''length''))) [] [] [] None = Inl e"
    using finish_reason_checked [of "respond (response_item (str ''length''))" "[]" "[]" "[]" None
        "response_item (str ''length'')"] l
    unfolding ex_response by (simp add: respond_def)
  moreover have "getChatResponse (respond (response_item (str ''stop''))) [] [] [] None =
       Inr (response_item (str ''stop''))"
    using finish_reason_checked [of "respond (response_item (str ''stop''))" "[]" "[]" "[]" None
        "response_item (str ''stop'')"]
    unfolding ex_response by (simp add: respond_def ex_response(5))
  moreover have "getChatResponse (respond odd_tokens_item) [] [] [] None = Inl TypeError"
    using finish_reason_checked [of "respond odd_tokens_item" "[]" "[]" "[]" None odd_tokens_item]
      ex_odd_tokens
    by (simp add: respond_def)
  ultimately show ?thesis by blast
qed

text \<open>C5 as the specification words it, with no condition on \<^verbatim>\<open>usage\<close>, fails for
  a response that stopped and has no \<^verbatim>\<open>usage\<close> member: line 103 reads
  \<^verbatim>\<open>result.usage.total_tokens\<close> and throws.\<close>

theorem stop_without_usage_fails:
  "finish_reason no_usage_item = Inr (Some (JString (str ''stop'')))
   \<and> opt_get (Some no_usage_item) (str ''error'') = None
   \<and> getChatResponse (respond no_usage_item) [] [] [] None = Inl TypeError"
  by (simp add: getChatResponse_def respond_def checked_def finish_reason_def no_usage_item_def
      choice_def str_def)

section \<open>Lines that are no frames\<close>

text \<open>The lines \<open>data_match\<close> accepts are the lines of the pattern
  \<^verbatim>\<open>^data: (\{.*\})$\<close>: \<^verbatim>\<open>data: {\<close>, any code units but line terminators, \<^verbatim>\<open>}\<close>;
  the group is the line from its \<^verbatim>\<open>{\<close> on.\<close>

lemma data_match_iff:
  "data_match l = Some m \<longleftrightarrow>
     (\<exists>t. l = str ''data: '' @ [0x7B] @ t @ [0x7D] \<and> list_all (\<lambda>c. \<not> LineTerminator c) t
          \<and> m = [0x7B] @ t @ [0x7D])"
proof
  assume a: "data_match l = Some m"
  then have p: "take 7 l = str ''data: {''" and n: "8 \<le> length l" and e: "last l = 0x7D"
    and t: "list_all (\<lambda>c. \<not> LineTerminator c) (drop 7 (butlast l))" and m: "m = drop 6 l"
    by (auto simp: data_match_def split: if_splits)
  have l: "l = take 7 l @ drop 7 (butlast l) @ [last l]"
  proof -
    have "l \<noteq> []" using n by auto
    then have "l = butlast l @ [last l]" by simp
    moreover have "butlast l = take 7 (butlast l) @ drop 7 (butlast l)" by simp
    moreover have "take 7 (butlast l) = take 7 l"
      using n by (simp add: take_butlast)
    ultimately show ?thesis by (metis append_assoc)
  qed
  have s: "str ''data: {'' = str ''data: '' @ [0x7B]"
    by (simp add: str_def)
  have "l = str ''data: '' @ [0x7B] @ drop 7 (butlast l) @ [0x7D]"
    using l p e s by simp
  moreover have "m = [0x7B] @ drop 7 (butlast l) @ [0x7D]"
  proof -
    have "length (str ''data: '') = 6" by (simp add: str_def)
    then show ?thesis
      using calculation m by (metis append_eq_conv_conj)
  qed
  ultimately show "\<exists>t. l = str ''data: '' @ [0x7B] @ t @ [0x7D] \<and> list_all (\<lambda>c. \<not> LineTerminator c) t
          \<and> m = [0x7B] @ t @ [0x7D]"
    using t by blast
next
  assume "\<exists>t. l = str ''data: '' @ [0x7B] @ t @ [0x7D] \<and> list_all (\<lambda>c. \<not> LineTerminator c) t
          \<and> m = [0x7B] @ t @ [0x7D]"
  then obtain t where l: "l = str ''data: '' @ [0x7B] @ t @ [0x7D]"
    and t: "list_all (\<lambda>c. \<not> LineTerminator c) t" and m: "m = [0x7B] @ t @ [0x7D]"
    by blast
  have l': "l = [100, 97, 116, 97, 58, 32, 123] @ t @ [0x7D]"
    using l by (simp add: str_def)
  have "butlast l = [100, 97, 116, 97, 58, 32, 123] @ t"
    unfolding l' by (simp add: butlast_append)
  then have "drop 7 (butlast l) = t"
    by simp
  moreover have "take 7 l = str ''data: {''" "8 \<le> length l" "last l = 0x7D" "drop 6 l = m"
    unfolding l' m by (simp_all add: str_def)
  ultimately show "data_match l = Some m"
    using t by (simp add: data_match_def)
qed

text \<open>
  C6. A whole line of the window that the pattern does not match (an empty line, a
  comment, a keep-alive, any other line) is discarded: the loop does what it does
  on the window without the line, so it yields nothing for the line, throws
  nothing for it and goes on with the lines after it.
\<close>

theorem non_frame_line_discarded:
  assumes "data_match line = None" and "NL \<notin> set line"
    and "before = [] \<or> last before = NL"
    and "unfinished @ decode value = before @ line @ NL # after"
    and "unfinished' @ decode value' = before @ after"
  shows "read_loop JSON_parse decode unfinished (value # rest) =
         read_loop JSON_parse decode unfinished' (value' # rest)"
proof -
  have m: "matches (filter (\<lambda>l. l \<noteq> []) [line]) = []"
    using assms(1) by (simp add: matches_def)
  have "wholeLines (before @ line @ NL # after) = wholeLines before @ wholeLines (line @ NL # after)"
    using assms(3) by (rule wholeLines_cut)
  then have "matches (wholeLines (before @ line @ NL # after)) = matches (wholeLines (before @ after))"
    using wholeLines_cut(1) [OF assms(3), of after] wholeLines_line [OF assms(2), of after] m
    by (simp add: matches_append)
  moreover have "carry (before @ line @ NL # after) = carry (before @ after)"
    using wholeLines_cut(2) [OF assms(3)] wholeLines_cut(2) [of "line @ [NL]" after] by simp
  ultimately show ?thesis
    using assms(4,5) by (simp add: Let_def)
qed

lemma ex_ping: \<open>data_match (str '': ping'') = None \<and> NL \<notin> set (str '': ping'')\<close>
  by (simp add: match_eval NL_def)

lemma ex_blank: \<open>data_match [] = None\<close>
  by (simp add: match_eval)

lemma ex_with_ping:
  \<open>TextDecoder_decode (bytes ''data: {"choices":[]}\<newline>: ping\<newline>data: {"choices":[]}\<newline>'') =
     str ''data: {"choices":[]}\<newline>'' @ str '': ping'' @ NL # str ''data: {"choices":[]}\<newline>''\<close>
  by (simp add: decode_eval NL_def)

lemma ex_without_ping:
  \<open>TextDecoder_decode (bytes ''data: {"choices":[]}\<newline>data: {"choices":[]}\<newline>'') =
     str ''data: {"choices":[]}\<newline>'' @ str ''data: {"choices":[]}\<newline>''\<close>
  by (simp add: decode_eval)

lemma ex_frame_last: \<open>last (str ''data: {"choices":[]}\<newline>'') = NL\<close>
  by (simp add: str_def NL_def)

theorem non_frame_line_discarded_witness:
  \<open>data_match (str '': ping'') = None
   \<and> read_loop JSON_parse_examples TextDecoder_decode []
        [bytes ''data: {"choices":[]}\<newline>: ping\<newline>data: {"choices":[]}\<newline>''] =
      read_loop JSON_parse_examples TextDecoder_decode []
        [bytes ''data: {"choices":[]}\<newline>data: {"choices":[]}\<newline>'']\<close>
proof -
  have "read_loop JSON_parse_examples TextDecoder_decode []
        [bytes ''data: {\"choices\":[]}\<newline>: ping\<newline>data: {\"choices\":[]}\<newline>''] =
      read_loop JSON_parse_examples TextDecoder_decode []
        [bytes ''data: {\"choices\":[]}\<newline>data: {\"choices\":[]}\<newline>'']"
  proof (rule non_frame_line_discarded)
    show "data_match (str '': ping'') = None" "NL \<notin> set (str '': ping'')"
      using ex_ping by simp_all
    show \<open>str ''data: {"choices":[]}\<newline>'' = [] \<or> last (str ''data: {"choices":[]}\<newline>'') = NL\<close>
      using ex_frame_last by simp
    show \<open>[] @ TextDecoder_decode (bytes ''data: {"choices":[]}\<newline>: ping\<newline>data: {"choices":[]}\<newline>'') =
      str ''data: {"choices":[]}\<newline>'' @ str '': ping'' @ NL # str ''data: {"choices":[]}\<newline>''\<close>
      using ex_with_ping by simp
    show \<open>[] @ TextDecoder_decode (bytes ''data: {"choices":[]}\<newline>data: {"choices":[]}\<newline>'') =
      str ''data: {"choices":[]}\<newline>'' @ str ''data: {"choices":[]}\<newline>''\<close>
      using ex_without_ping by simp
  qed
  then show ?thesis
    using ex_ping by blast
qed

section \<open>The payload\<close>

text \<open>
  C7, as the code has it. The request of getChatResponse and of getChatStream
  (which adds \<^verbatim>\<open>stream: true\<close>) is the one request whose answer decides the call, and
  its body is as follows. With no \<^verbatim>\<open>config\<close>, or with a \<^verbatim>\<open>config\<close> that has no
  member, the body has the messages and the defaults: temperature 0.7, \<^verbatim>\<open>top_p\<close> 1,
  both penalties 0, \<^verbatim>\<open>max_tokens\<close> 60, \<^verbatim>\<open>stop\<close> the empty string, no
  \<^verbatim>\<open>response_format\<close> and no \<^verbatim>\<open>seed\<close>. With a \<^verbatim>\<open>config\<close>: a member that \<^verbatim>\<open>config\<close>
  does not have has its default; a member that \<^verbatim>\<open>config\<close> has with a value has that
  value, a number written as JSON writes it (itself when finite, \<^verbatim>\<open>null\<close> for
  \<^verbatim>\<open>NaN\<close> and the infinities); a member that \<^verbatim>\<open>config\<close> has with the value
  \<^verbatim>\<open>undefined\<close> is not in the body. The payload is a function of the messages and
  the \<^verbatim>\<open>config\<close>, so two calls with the same ones build the same body.
\<close>

theorem payload_defaults:
  "body (request endpoint apiKey (payload msgs None) s) =
     \<lparr>messages = Some msgs, temperature = Some (JNumber (7 / 10)), top_p = Some (JNumber 1),
      frequency_penalty = Some (JNumber 0), presence_penalty = Some (JNumber 0),
      max_tokens = Some (JNumber 60), stop = Some (Inl []), response_format = None, seed = None,
      stream = s\<rparr>
   \<and> payload msgs (Some no_overrides) = payload msgs None
   \<and> (Partial_OpenAIChatPayload.messages c = Absent \<longrightarrow>
        messages (body (request endpoint apiKey (payload msgs (Some c)) s)) = Some msgs)
   \<and> (Partial_OpenAIChatPayload.temperature c = Absent \<longrightarrow>
        temperature (body (request endpoint apiKey (payload msgs (Some c)) s)) = Some (JNumber (7 / 10)))
   \<and> (Partial_OpenAIChatPayload.top_p c = Absent \<longrightarrow>
        top_p (body (request endpoint apiKey (payload msgs (Some c)) s)) = Some (JNumber 1))
   \<and> (Partial_OpenAIChatPayload.frequency_penalty c = Absent \<longrightarrow>
        frequency_penalty (body (request endpoint apiKey (payload msgs (Some c)) s)) = Some (JNumber 0))
   \<and> (Partial_OpenAIChatPayload.presence_penalty c = Absent \<longrightarrow>
        presence_penalty (body (request endpoint apiKey (payload msgs (Some c)) s)) = Some (JNumber 0))
   \<and> (Partial_OpenAIChatPayload.max_tokens c = Absent \<longrightarrow>
        max_tokens (body (request endpoint apiKey (payload msgs (Some c)) s)) = Some (JNumber 60))
   \<and> (Partial_OpenAIChatPayload.stop c = Absent \<longrightarrow>
        stop (body (request endpoint apiKey (payload msgs (Some c)) s)) = Some (Inl []))
   \<and> (Partial_OpenAIChatPayload.response_format c = Absent \<longrightarrow>
        response_format (body (request endpoint apiKey (payload msgs (Some c)) s)) = None)
   \<and> (Partial_OpenAIChatPayload.seed c = Absent \<longrightarrow>
        seed (body (request endpoint apiKey (payload msgs (Some c)) s)) = None)
   \<and> (Partial_OpenAIChatPayload.messages c = Value ms \<longrightarrow>
        messages (body (request endpoint apiKey (payload msgs (Some c)) s)) = Some ms)
   \<and> (Partial_OpenAIChatPayload.temperature c = Value t \<longrightarrow>
        temperature (body (request endpoint apiKey (payload msgs (Some c)) s)) = Some (json_of_number t))
   \<and> (Partial_OpenAIChatPayload.top_p c = Value p \<longrightarrow>
        top_p (body (request endpoint apiKey (payload msgs (Some c)) s)) = Some (json_of_number p))
   \<and> (Partial_OpenAIChatPayload.frequency_penalty c = Value fp \<longrightarrow>
        frequency_penalty (body (request endpoint apiKey (payload msgs (Some c)) s)) =
          Some (json_of_number fp))
   \<and> (Partial_OpenAIChatPayload.presence_penalty c = Value pp \<longrightarrow>
        presence_penalty (body (request endpoint apiKey (payload msgs (Some c)) s)) =
          Some (json_of_number pp))
   \<and> (Partial_OpenAIChatPayload.max_tokens c = Value mt \<longrightarrow>
        max_tokens (body (request endpoint apiKey (payload msgs (Some c)) s)) = Some (json_of_number mt))
   \<and> (Partial_OpenAIChatPayload.stop c = Value st \<longrightarrow>
        stop (body (request endpoint apiKey (payload msgs (Some c)) s)) = Some st)
   \<and> (Partial_OpenAIChatPayload.response_format c = Value rf \<longrightarrow>
        response_format (body (request endpoint apiKey (payload msgs (Some c)) s)) = Some rf)
   \<and> (Partial_OpenAIChatPayload.seed c = Value sd \<longrightarrow>
        seed (body (request endpoint apiKey (payload msgs (Some c)) s)) = Some (json_of_number sd))
   \<and> (Partial_OpenAIChatPayload.messages c = Undefined \<longrightarrow>
        messages (body (request endpoint apiKey (payload msgs (Some c)) s)) = None)
   \<and> (Partial_OpenAIChatPayload.temperature c = Undefined \<longrightarrow>
        temperature (body (request endpoint apiKey (payload msgs (Some c)) s)) = None)
   \<and> (Partial_OpenAIChatPayload.top_p c = Undefined \<longrightarrow>
        top_p (body (request endpoint apiKey (payload msgs (Some c)) s)) = None)
   \<and> (Partial_OpenAIChatPayload.frequency_penalty c = Undefined \<longrightarrow>
        frequency_penalty (body (request endpoint apiKey (payload msgs (Some c)) s)) = None)
   \<and> (Partial_OpenAIChatPayload.presence_penalty c = Undefined \<longrightarrow>
        presence_penalty (body (request endpoint apiKey (payload msgs (Some c)) s)) = None)
   \<and> (Partial_OpenAIChatPayload.max_tokens c = Undefined \<longrightarrow>
        max_tokens (body (request endpoint apiKey (payload msgs (Some c)) s)) = None)
   \<and> (Partial_OpenAIChatPayload.stop c = Undefined \<longrightarrow>
        stop (body (request endpoint apiKey (payload msgs (Some c)) s)) = None)
   \<and> (Partial_OpenAIChatPayload.response_format c = Undefined \<longrightarrow>
        response_format (body (request endpoint apiKey (payload msgs (Some c)) s)) = None)
   \<and> (Partial_OpenAIChatPayload.seed c = Undefined \<longrightarrow>
        seed (body (request endpoint apiKey (payload msgs (Some c)) s)) = None)
   \<and> json_of_number (Finite r) = JNumber r
   \<and> json_of_number NaN = JNull
   \<and> json_of_number Infinity = JNull
   \<and> json_of_number Minus_Infinity = JNull
   \<and> stream (body (request endpoint apiKey (payload msgs config) s)) = s
   \<and> (fetch_json (request endpoint apiKey (payload msgs config) None) = Inl e \<longrightarrow>
        getChatResponse fetch_json endpoint apiKey msgs config = Inl e)
   \<and> (fetch_json (request endpoint apiKey (payload msgs config) None) = Inr result \<longrightarrow>
        getChatResponse fetch_json endpoint apiKey msgs config = checked result)
   \<and> (fetch (request endpoint apiKey (payload msgs config) (Some True)) = Inl e \<longrightarrow>
        getChatStream fetch JSON_parse endpoint apiKey msgs config =
          \<lparr>yielded = [], thrown = Some e, unfinishedLine = []\<rparr>)
   \<and> (fetch (request endpoint apiKey (payload msgs config) (Some True)) = Inr response
        \<and> ok response \<and> response_body response = Some chunks \<longrightarrow>
        getChatStream fetch JSON_parse endpoint apiKey msgs config =
          read_loop JSON_parse TextDecoder_decode [] chunks)"
proof -
  have b: "body (request endpoint apiKey q s) = JSON_stringify q s" for q
    by (simp add: request_def)
  have "payload msgs (Some no_overrides) = payload msgs None"
    by (simp add: payload_def no_overrides_def)
  moreover have "body (request endpoint apiKey (payload msgs None) s) =
     \<lparr>messages = Some msgs, temperature = Some (JNumber (7 / 10)), top_p = Some (JNumber 1),
      frequency_penalty = Some (JNumber 0), presence_penalty = Some (JNumber 0),
      max_tokens = Some (JNumber 60), stop = Some (Inl []), response_format = None, seed = None,
      stream = s\<rparr>"
    by (simp add: b payload_def JSON_stringify_def)
  moreover have "stream (body (request endpoint apiKey (payload msgs config) s)) = s"
    by (simp add: b JSON_stringify_def)
  ultimately show ?thesis
    using getChatResponse_fetch [of fetch_json endpoint apiKey msgs config e result]
      getChatStream_fetch [of fetch endpoint apiKey msgs config e JSON_parse response chunks]
    by (simp add: b payload_def JSON_stringify_def del: read_loop.simps)
qed


theorem payload_defaults_witness:
  "temperature (body (request [] [] (payload hello
      (Some (no_overrides\<lparr>Partial_OpenAIChatPayload.temperature := Value (Finite 1)\<rparr>))) None)) =
     Some (JNumber 1)
   \<and> max_tokens (body (request [] [] (payload hello
      (Some (no_overrides\<lparr>Partial_OpenAIChatPayload.temperature := Value (Finite 1)\<rparr>))) None)) =
     Some (JNumber 60)
   \<and> messages (body (request [] [] (payload hello
      (Some (no_overrides\<lparr>Partial_OpenAIChatPayload.temperature := Value (Finite 1)\<rparr>))) None)) =
     Some hello
   \<and> getChatResponse (answer (expected_request hello 1 None) (response_item (str ''stop''))) [] [] hello
      (Some (no_overrides\<lparr>Partial_OpenAIChatPayload.temperature := Value (Finite 1)\<rparr>)) =
     Inr (response_item (str ''stop''))
   \<and> getChatStream (answer (expected_request hello 1 (Some True)) one_frame) JSON_parse_examples [] []
      hello (Some (no_overrides\<lparr>Partial_OpenAIChatPayload.temperature := Value (Finite 1)\<rparr>)) =
     \<lparr>yielded = [choices_item (JArray [])], thrown = None, unfinishedLine = []\<rparr>"
proof -
  define c where "c = no_overrides\<lparr>Partial_OpenAIChatPayload.temperature := Value (Finite 1)\<rparr>"
  define cs where \<open>cs = [bytes ''data: {"choices":[]}\<newline>'']\<close>
  have m: "Partial_OpenAIChatPayload.temperature c = Value (Finite 1)"
    "Partial_OpenAIChatPayload.max_tokens c = Absent"
    "Partial_OpenAIChatPayload.messages c = Absent"
    by (simp_all add: c_def no_overrides_def)
  have q: "request [] [] (payload hello (Some c)) s = expected_request hello 1 s" for s
    unfolding c_def by (rule ex_requests(1))
  have r: "answer (expected_request hello 1 None) (response_item (str ''stop''))
      (request [] [] (payload hello (Some c)) None) = Inr (response_item (str ''stop''))"
    "answer (expected_request hello 1 (Some True)) one_frame
      (request [] [] (payload hello (Some c)) (Some True)) = Inr one_frame"
    by (simp_all add: answer_def q)
  have f: "ok one_frame" "response_body one_frame = Some cs"
    unfolding cs_def by (rule ex_one_frame)+
  have l: "read_loop JSON_parse_examples TextDecoder_decode [] cs =
     \<lparr>yielded = [choices_item (JArray [])], thrown = None, unfinishedLine = []\<rparr>"
    unfolding cs_def by (rule ex_one_frame_run)
  have "temperature (body (request [] [] (payload hello (Some c)) None)) = Some (JNumber 1)
   \<and> max_tokens (body (request [] [] (payload hello (Some c)) None)) = Some (JNumber 60)
   \<and> messages (body (request [] [] (payload hello (Some c)) None)) = Some hello
   \<and> getChatResponse (answer (expected_request hello 1 None) (response_item (str ''stop''))) [] [] hello
      (Some c) = Inr (response_item (str ''stop''))
   \<and> getChatStream (answer (expected_request hello 1 (Some True)) one_frame) JSON_parse_examples [] []
      hello (Some c) =
     \<lparr>yielded = [choices_item (JArray [])], thrown = None, unfinishedLine = []\<rparr>"
    using payload_defaults [where endpoint = "[]" and apiKey = "[]" and msgs = hello and s = None
        and c = c and t = "Finite 1" and config = "Some c"
        and fetch_json = "answer (expected_request hello 1 None) (response_item (str ''stop''))"
        and result = "response_item (str ''stop'')"
        and fetch = "answer (expected_request hello 1 (Some True)) one_frame"
        and response = one_frame and chunks = cs and JSON_parse = JSON_parse_examples] m r f
    by (simp add: ex_checked_stop l del: read_loop.simps)
  then show ?thesis
    unfolding c_def .
qed

text \<open>C7 as the specification words it fails for a \<^verbatim>\<open>config\<close> whose \<^verbatim>\<open>temperature\<close>
  is \<^verbatim>\<open>undefined\<close>, a member that holds no value: the body has no temperature, not
  the default 0.7. It fails too for a \<^verbatim>\<open>config\<close> whose \<^verbatim>\<open>max_tokens\<close> is \<^verbatim>\<open>NaN\<close>:
  the body has \<^verbatim>\<open>null\<close>, not the value supplied.\<close>

theorem undefined_member_drops_default:
  "temperature (body (request [] [] (payload hello
      (Some (no_overrides\<lparr>Partial_OpenAIChatPayload.temperature := Undefined\<rparr>))) None)) = None
   \<and> max_tokens (body (request [] [] (payload hello
      (Some (no_overrides\<lparr>Partial_OpenAIChatPayload.max_tokens := Value NaN\<rparr>))) None)) = Some JNull"
  by (simp add: request_def JSON_stringify_def payload_def no_overrides_def)

section \<open>The end of the stream\<close>

text \<open>
  C8. Text after the last line feed of the stream changes nothing: with or without
  it the loop yields the same items and ends the same way, and when the loop ends
  without an exception the text is left in \<^verbatim>\<open>unfinishedLine\<close>, which nothing reads
  after the loop.
\<close>

theorem residue_dropped:
  assumes "concat (map decode chunks') = concat (map decode chunks) @ residue"
    and "NL \<notin> set residue"
  shows "yielded (read_loop JSON_parse decode [] chunks') = yielded (read_loop JSON_parse decode [] chunks)
   \<and> thrown (read_loop JSON_parse decode [] chunks') = thrown (read_loop JSON_parse decode [] chunks)
   \<and> (thrown (read_loop JSON_parse decode [] chunks') = None \<longrightarrow>
        unfinishedLine (read_loop JSON_parse decode [] chunks') =
          unfinishedLine (read_loop JSON_parse decode [] chunks) @ residue)"
proof -
  let ?T = "concat (map decode chunks)"
  have w: "wholeLines (concat (map decode chunks')) = wholeLines ?T"
    using assms by (simp add: wholeLines_residue)
  have y: "yielded (read_loop JSON_parse decode [] chunks') = yielded (read_loop JSON_parse decode [] chunks)"
    and t: "thrown (read_loop JSON_parse decode [] chunks') = thrown (read_loop JSON_parse decode [] chunks)"
    using read_loop_text [of "[]" JSON_parse decode chunks'] read_loop_text [of "[]" JSON_parse decode chunks] w
    by simp_all
  have "unfinishedLine (read_loop JSON_parse decode [] chunks') =
          unfinishedLine (read_loop JSON_parse decode [] chunks) @ residue"
    if n: "thrown (read_loop JSON_parse decode [] chunks') = None"
  proof -
    have "unfinishedLine (read_loop JSON_parse decode [] chunks') = carry (?T @ residue)"
      using carry_of_text [OF assms(1) n] .
    moreover have "unfinishedLine (read_loop JSON_parse decode [] chunks) = carry ?T"
      using carry_of_text [OF refl, of JSON_parse decode chunks] n t by simp
    ultimately show ?thesis
      using assms(2) by (simp add: carry_residue)
  qed
  with y t show ?thesis by blast
qed

lemma ex_frame_twice:
  \<open>TextDecoder_decode (bytes ''data: {"choices":[]}\<newline>data: {"choices":[]}'') =
     str ''data: {"choices":[]}\<newline>'' @ str ''data: {"choices":[]}''\<close>
  by (simp add: decode_eval)

lemma ex_frame_carry: \<open>carry (str ''data: {"choices":[]}\<newline>'') = []\<close>
  by (simp add: lines_eval)

lemma ex_frame_no_NL: \<open>NL \<notin> set (str ''data: {"choices":[]}'')\<close>
  by (simp add: str_def NL_def)

theorem residue_dropped_witness:
  \<open>NL \<notin> set (str ''data: {"choices":[]}'')
   \<and> yielded (read_loop JSON_parse_examples TextDecoder_decode []
         [bytes ''data: {"choices":[]}\<newline>data: {"choices":[]}'']) = [choices_item (JArray [])]
   \<and> thrown (read_loop JSON_parse_examples TextDecoder_decode []
         [bytes ''data: {"choices":[]}\<newline>data: {"choices":[]}'']) = None
   \<and> unfinishedLine (read_loop JSON_parse_examples TextDecoder_decode []
         [bytes ''data: {"choices":[]}\<newline>data: {"choices":[]}'']) = str ''data: {"choices":[]}''\<close>
proof -
  define cs where \<open>cs = [bytes ''data: {"choices":[]}\<newline>'']\<close>
  define cs' where \<open>cs' = [bytes ''data: {"choices":[]}\<newline>data: {"choices":[]}'']\<close>
  define residue where \<open>residue = str ''data: {"choices":[]}''\<close>
  have T: \<open>concat (map TextDecoder_decode cs) = str ''data: {"choices":[]}\<newline>''\<close>
    by (simp add: cs_def ex_frame)
  have T': "concat (map TextDecoder_decode cs') = concat (map TextDecoder_decode cs) @ residue"
    unfolding T by (simp add: cs'_def residue_def ex_frame_twice)
  have n: "NL \<notin> set residue"
    unfolding residue_def by (rule ex_frame_no_NL)
  have r: "yielded (read_loop JSON_parse_examples TextDecoder_decode [] cs) = [choices_item (JArray [])]
      \<and> thrown (read_loop JSON_parse_examples TextDecoder_decode [] cs) = None"
    using run_of_text [OF T ex_frame_matches ex_for] .
  then have u: "unfinishedLine (read_loop JSON_parse_examples TextDecoder_decode [] cs) = []"
    using carry_of_text [OF T, of JSON_parse_examples] by (simp add: ex_frame_carry)
  have "NL \<notin> set residue
   \<and> yielded (read_loop JSON_parse_examples TextDecoder_decode [] cs') = [choices_item (JArray [])]
   \<and> thrown (read_loop JSON_parse_examples TextDecoder_decode [] cs') = None
   \<and> unfinishedLine (read_loop JSON_parse_examples TextDecoder_decode [] cs') = residue"
    using residue_dropped [OF T' n, of JSON_parse_examples] r u n by simp
  then show ?thesis
    unfolding cs'_def residue_def .
qed

section \<open>The members of the configuration\<close>

text \<open>
  C9. A member that \<^verbatim>\<open>config\<close> has, with a value or with \<^verbatim>\<open>undefined\<close>, decides the
  member of the body alone, in place of the default and, for \<^verbatim>\<open>messages\<close>, in place
  of the first argument: the body has the value of the member of \<^verbatim>\<open>config\<close> (a
  number as JSON writes it), or no such member when that value is \<^verbatim>\<open>undefined\<close>.
  With \<^verbatim>\<open>messages\<close> in \<^verbatim>\<open>config\<close> the request is the same whatever the first
  argument is. This request is the one whose answer decides the call, in
  getChatResponse and in getChatStream.
\<close>

theorem config_takes_precedence:
  "(Partial_OpenAIChatPayload.messages c \<noteq> Absent \<longrightarrow>
      messages (body (request endpoint apiKey (payload msgs (Some c)) s)) =
        defined (Partial_OpenAIChatPayload.messages c)
    \<and> request endpoint apiKey (payload msgs (Some c)) s =
      request endpoint apiKey (payload msgs' (Some c)) s)
   \<and> (Partial_OpenAIChatPayload.messages c = Value ms \<longrightarrow>
        messages (body (request endpoint apiKey (payload msgs (Some c)) s)) = Some ms)
   \<and> (Partial_OpenAIChatPayload.temperature c \<noteq> Absent \<longrightarrow>
        temperature (body (request endpoint apiKey (payload msgs (Some c)) s)) =
          map_option json_of_number (defined (Partial_OpenAIChatPayload.temperature c)))
   \<and> (Partial_OpenAIChatPayload.top_p c \<noteq> Absent \<longrightarrow>
        top_p (body (request endpoint apiKey (payload msgs (Some c)) s)) =
          map_option json_of_number (defined (Partial_OpenAIChatPayload.top_p c)))
   \<and> (Partial_OpenAIChatPayload.frequency_penalty c \<noteq> Absent \<longrightarrow>
        frequency_penalty (body (request endpoint apiKey (payload msgs (Some c)) s)) =
          map_option json_of_number (defined (Partial_OpenAIChatPayload.frequency_penalty c)))
   \<and> (Partial_OpenAIChatPayload.presence_penalty c \<noteq> Absent \<longrightarrow>
        presence_penalty (body (request endpoint apiKey (payload msgs (Some c)) s)) =
          map_option json_of_number (defined (Partial_OpenAIChatPayload.presence_penalty c)))
   \<and> (Partial_OpenAIChatPayload.max_tokens c \<noteq> Absent \<longrightarrow>
        max_tokens (body (request endpoint apiKey (payload msgs (Some c)) s)) =
          map_option json_of_number (defined (Partial_OpenAIChatPayload.max_tokens c)))
   \<and> (Partial_OpenAIChatPayload.stop c \<noteq> Absent \<longrightarrow>
        stop (body (request endpoint apiKey (payload msgs (Some c)) s)) =
          defined (Partial_OpenAIChatPayload.stop c))
   \<and> (Partial_OpenAIChatPayload.response_format c \<noteq> Absent \<longrightarrow>
        response_format (body (request endpoint apiKey (payload msgs (Some c)) s)) =
          defined (Partial_OpenAIChatPayload.response_format c))
   \<and> (Partial_OpenAIChatPayload.seed c \<noteq> Absent \<longrightarrow>
        seed (body (request endpoint apiKey (payload msgs (Some c)) s)) =
          map_option json_of_number (defined (Partial_OpenAIChatPayload.seed c)))
   \<and> defined (Value v) = Some v
   \<and> defined Undefined = None
   \<and> (fetch_json (request endpoint apiKey (payload msgs (Some c)) None) = Inl e \<longrightarrow>
        getChatResponse fetch_json endpoint apiKey msgs (Some c) = Inl e)
   \<and> (fetch_json (request endpoint apiKey (payload msgs (Some c)) None) = Inr result \<longrightarrow>
        getChatResponse fetch_json endpoint apiKey msgs (Some c) = checked result)
   \<and> (fetch (request endpoint apiKey (payload msgs (Some c)) (Some True)) = Inl e \<longrightarrow>
        getChatStream fetch JSON_parse endpoint apiKey msgs (Some c) =
          \<lparr>yielded = [], thrown = Some e, unfinishedLine = []\<rparr>)
   \<and> (fetch (request endpoint apiKey (payload msgs (Some c)) (Some True)) = Inr response
        \<and> ok response \<and> response_body response = Some chunks \<longrightarrow>
        getChatStream fetch JSON_parse endpoint apiKey msgs (Some c) =
          read_loop JSON_parse TextDecoder_decode [] chunks)"
proof -
  have b: "body (request endpoint apiKey q s) = JSON_stringify q s" for q
    by (simp add: request_def)
  have "request endpoint apiKey (payload msgs (Some c)) s =
      request endpoint apiKey (payload msgs' (Some c)) s"
    if "Partial_OpenAIChatPayload.messages c \<noteq> Absent"
    using that by (cases "Partial_OpenAIChatPayload.messages c") (simp_all add: request_def payload_def)
  then show ?thesis
    using getChatResponse_fetch [of fetch_json endpoint apiKey msgs "Some c" e result]
      getChatStream_fetch [of fetch endpoint apiKey msgs "Some c" e JSON_parse response chunks]
    by (simp add: b payload_def JSON_stringify_def spread_defined del: read_loop.simps)
qed

theorem config_takes_precedence_witness:
  "messages (body (request [] [] (payload hello
      (Some (no_overrides\<lparr>Partial_OpenAIChatPayload.messages := Value bye\<rparr>))) None)) = Some bye
   \<and> hello \<noteq> bye
   \<and> getChatResponse (answer (expected_request bye (7 / 10) None) (response_item (str ''stop''))) [] []
      hello (Some (no_overrides\<lparr>Partial_OpenAIChatPayload.messages := Value bye\<rparr>)) =
     Inr (response_item (str ''stop''))
   \<and> getChatStream (answer (expected_request bye (7 / 10) (Some True)) one_frame) JSON_parse_examples
      [] [] hello (Some (no_overrides\<lparr>Partial_OpenAIChatPayload.messages := Value bye\<rparr>)) =
     \<lparr>yielded = [choices_item (JArray [])], thrown = None, unfinishedLine = []\<rparr>"
proof -
  define c where "c = no_overrides\<lparr>Partial_OpenAIChatPayload.messages := Value bye\<rparr>"
  define cs where \<open>cs = [bytes ''data: {"choices":[]}\<newline>'']\<close>
  have m: "Partial_OpenAIChatPayload.messages c = Value bye"
    by (simp add: c_def)
  have q: "request [] [] (payload hello (Some c)) s = expected_request bye (7 / 10) s" for s
    unfolding c_def by (rule ex_requests(2))
  have r: "answer (expected_request bye (7 / 10) None) (response_item (str ''stop''))
      (request [] [] (payload hello (Some c)) None) = Inr (response_item (str ''stop''))"
    "answer (expected_request bye (7 / 10) (Some True)) one_frame
      (request [] [] (payload hello (Some c)) (Some True)) = Inr one_frame"
    by (simp_all add: answer_def q)
  have f: "ok one_frame" "response_body one_frame = Some cs"
    unfolding cs_def by (rule ex_one_frame)+
  have l: "read_loop JSON_parse_examples TextDecoder_decode [] cs =
     \<lparr>yielded = [choices_item (JArray [])], thrown = None, unfinishedLine = []\<rparr>"
    unfolding cs_def by (rule ex_one_frame_run)
  have "hello \<noteq> bye"
    by (simp add: hello_def bye_def str_def)
  then have "messages (body (request [] [] (payload hello (Some c)) None)) = Some bye
    \<and> hello \<noteq> bye
    \<and> getChatResponse (answer (expected_request bye (7 / 10) None) (response_item (str ''stop''))) [] []
      hello (Some c) = Inr (response_item (str ''stop''))
    \<and> getChatStream (answer (expected_request bye (7 / 10) (Some True)) one_frame) JSON_parse_examples
      [] [] hello (Some c) =
     \<lparr>yielded = [choices_item (JArray [])], thrown = None, unfinishedLine = []\<rparr>"
    using config_takes_precedence [where endpoint = "[]" and apiKey = "[]" and msgs = hello
        and s = None and c = c and ms = bye
        and fetch_json = "answer (expected_request bye (7 / 10) None) (response_item (str ''stop''))"
        and result = "response_item (str ''stop'')"
        and fetch = "answer (expected_request bye (7 / 10) (Some True)) one_frame"
        and response = one_frame and chunks = cs and JSON_parse = JSON_parse_examples] m r f
    by (simp add: ex_checked_stop l del: read_loop.simps)
  then show ?thesis
    unfolding c_def .
qed

section \<open>No choice at all\<close>

text \<open>
  C10. When the request resolves to a response whose \<^verbatim>\<open>choices\<close> is an empty
  array and whose \<^verbatim>\<open>error\<close> member is missing or falsy: \<^verbatim>\<open>result.choices[0]\<close> is
  \<^verbatim>\<open>undefined\<close>, not an exception; the finish reason read through \<^verbatim>\<open>?.\<close> is
  \<^verbatim>\<open>undefined\<close>; and the call fails at line 100 with
  \<^verbatim>\<open>Chat stopped due to undefined\<close>.
\<close>

theorem empty_choices_fail:
  assumes "fetch_json (request endpoint apiKey (payload msgs config) None) = Inr result"
    and "opt_get (Some result) (str ''choices'') = Some (JArray [])"
    and "\<not> truthy (opt_get (Some result) (str ''error''))"
  shows "get0 (opt_get (Some result) (str ''choices'')) = Inr None
     \<and> finish_reason result = Inr None
     \<and> getChatResponse fetch_json endpoint apiKey msgs config = Inl (Chat_stopped_due_to None)"
proof -
  have g: "get (Some result) k = Inr (opt_get (Some result) k)" for k
    using assms(2) by (cases result) simp_all
  have f: "finish_reason result = Inr None"
    using assms(2) g by (simp add: finish_reason_def)
  then have "checked result = Inl (Chat_stopped_due_to None)"
    using assms(3) g by (simp add: checked_def)
  then show ?thesis
    using assms(1,2) f by (simp add: getChatResponse_def)
qed

theorem empty_choices_fail_witness:
  "getChatResponse (respond (choices_item (JArray []))) [] [] [] None = Inl (Chat_stopped_due_to None)
   \<and> finish_reason (choices_item (JArray [])) = Inr None"
proof -
  have "opt_get (Some (choices_item (JArray []))) (str ''choices'') = Some (JArray [])"
    and "\<not> truthy (opt_get (Some (choices_item (JArray []))) (str ''error''))"
    by (simp_all add: choices_item_def str_def)
  then show ?thesis
    using empty_choices_fail [of "respond (choices_item (JArray []))" "[]" "[]" "[]" None
        "choices_item (JArray [])"]
    by (simp add: respond_def)
qed

end
